theory Spec2Isabelle
  imports Complex_Main
begin

section \<open>The three-layer trading pipeline (package layers)\<close>

text \<open>
  This development embeds the Go packages \<^verbatim>\<open>layers\<close>, \<^verbatim>\<open>layers/data_layer\<close>,
  \<^verbatim>\<open>layers/ai_layer\<close> and \<^verbatim>\<open>layers/execution_layer\<close>.

  Conventions of the embedding:
  \<^item> A Go \<^verbatim>\<open>float64\<close> is a \<^typ>\<open>real\<close>: comparisons, copies and thresholds are exact;
    rounding, infinities and NaN are outside the model (a division by zero is \<open>0\<close> in
    HOL, where Go gives an infinity or NaN).
  \<^item> A Go \<^verbatim>\<open>int\<close> is an \<^typ>\<open>int\<close>; the 64-bit wrap-around and the loss of precision of
    \<^verbatim>\<open>float64(n)\<close> beyond \<open>2^53\<close> are outside the model, so
    \<^verbatim>\<open>int(math.Max(1, float64(n)-k))\<close> is \<open>max 1 (n - k)\<close>.
  \<^item> A Go \<^verbatim>\<open>string\<close> is a \<^typ>\<open>string\<close>, a list of bytes; \<^verbatim>\<open>len\<close> is \<^const>\<open>length\<close>.
  \<^item> A pointer that may be nil is an \<^typ>\<open>'a option\<close>.
  \<^item> A returned \<^verbatim>\<open>error\<close> is the left summand of a sum type; a run-time panic is a
    value of its own.
  \<^item> Wall-clock timestamps that only label a record (\<^verbatim>\<open>Timestamp\<close>, \<^verbatim>\<open>StartTime\<close>,
    \<^verbatim>\<open>Duration\<close>, \<^verbatim>\<open>ResponseTimeMs\<close>) and console output are left out.
  \<^item> The source's messages are Chinese literals; a message is a value of type \<open>msg\<close>
    that names the literal in English and carries the formatted arguments.
\<close>

datatype msg =
    NoMsg
  | Lit string
  | Fmt string "real list"
  | FmtI string "int list"
  | FmtS string string
  | Wrap string msg
  | Cat msg msg
  | OracleText string

datatype error = Err string

datatype 'a outcome = Panic string | Done 'a

subsection \<open>layers/types.go\<close>

datatype MarketCondition =
  MarketTrending | MarketRanging | MarketVolatile | MarketConsolidate | MarketBreakout

datatype TradingOpportunity =
    OpportunityLongEntry | OpportunityShortEntry | OpportunityLongExit
  | OpportunityShortExit | OpportunityScalp | OpportunityNone

datatype Direction = DirectionLong | DirectionShort | DirectionWait

record CleanedMarketData =
  cmd_Symbol :: string
  cmd_CurrentPrice :: real
  cmd_PriceChange1h :: real
  cmd_PriceChange4h :: real
  cmd_PriceChange24h :: real
  cmd_EMA20 :: real
  cmd_EMA50 :: real
  cmd_MACD :: real
  cmd_MACDSignal :: real
  cmd_RSI7 :: real
  cmd_RSI14 :: real
  cmd_ATR :: real
  cmd_Volume24h :: real
  cmd_VolumeChange :: real
  cmd_OpenInterest :: real
  cmd_OIChange :: real
  cmd_FundingRate :: real
  cmd_LongShortRatio :: real
  cmd_TopTraderRatio :: real
  cmd_DataQuality :: real
  cmd_IsValid :: bool
  cmd_CompressedSummary :: string

record RiskMetrics =
  rm_Symbol :: string
  rm_MaxPositionSizeUSD :: real
  rm_RecommendedLeverage :: int
  rm_StopLossPrice :: real
  rm_TakeProfitPrice :: real
  rm_MaxLossUSD :: real
  rm_RequiredMargin :: real
  rm_MarginUsagePercent :: real
  rm_RiskLevel :: string
  rm_CanTrade :: bool
  rm_RiskReason :: msg

record AIDecision =
  ai_Symbol :: string
  ai_MarketCondition :: MarketCondition
  ai_ConditionReason :: msg
  ai_Opportunity :: TradingOpportunity
  ai_OpportunityReason :: msg
  ai_Direction :: Direction
  ai_Confidence :: real
  ai_ChainOfThought :: msg
  ai_ModelUsed :: string

record ExecutionPlan =
  plan_Symbol :: string
  plan_Action :: string
  plan_Quantity :: real
  plan_QuantityUSD :: real
  plan_Leverage :: int
  plan_StopLoss :: real
  plan_TakeProfit :: real
  plan_MaxSlippagePercent :: real
  plan_TimeoutSeconds :: int
  plan_RiskCheckPassed :: bool
  plan_RiskCheckReason :: msg
  plan_Priority :: string
  plan_SourceDecision :: AIDecision

record OrderResult =
  or_Success :: bool
  or_OrderID :: string
  or_FilledQuantity :: real
  or_AvgPrice :: real
  or_ExecutionTimeMs :: int
  or_ErrorMessage :: msg

record DataLayerConfig =
  MinDataQuality :: real
  MaxAccountRiskPercent :: real
  MaxSingleTradeRiskPercent :: real
  DefaultLeverage :: int
  MaxLeverage :: int
  CircuitBreakerEnabled :: bool
  MaxDailyLossPercent :: real
  MaxConsecutiveLosses :: int

record AILayerConfig =
  Model :: string
  MinConfidence :: real
  MaxPromptLength :: int
  MaxDecisionsPerHour :: int
  CooldownMinutes :: int

record ExecutionLayerConfig =
  EnableSecondaryRiskCheck :: bool
  MaxSlippagePercent :: real
  OrderTimeoutSeconds :: int
  EnablePositionSizing :: bool
  PositionSizingMethod :: string
  DryRun :: bool
  RequireManualConfirmation :: bool

record LayerConfig =
  DataLayer :: DataLayerConfig
  AILayer :: AILayerConfig
  ExecutionLayer :: ExecutionLayerConfig

subsection \<open>The raw market snapshot (package market)\<close>

text \<open>
  Modelled from the spec: the declaration of \<^verbatim>\<open>market.Data\<close> and of the structs it
  points to (\<^verbatim>\<open>OIData\<close>, \<^verbatim>\<open>LongerTermData\<close>, the intraday series) is not among the
  sources. The records below hold the fields that the data layer reads and that the
  repository's tests fill in, under the names used there; the spec's market snapshot
  lists the same quantities.
\<close>

record OIData =
  oi_Latest :: real
  oi_Average :: real

record LongerTermData =
  lt_EMA20 :: real
  lt_EMA50 :: real
  lt_ATR3 :: real
  lt_ATR14 :: real
  lt_CurrentVolume :: real
  lt_AverageVolume :: real

record IntradayData =
  MidPrices :: "real list"
  EMA20Values :: "real list"
  MACDValues :: "real list"
  RSI7Values :: "real list"
  RSI14Values :: "real list"

record Data =
  raw_Symbol :: string
  raw_CurrentPrice :: real
  raw_PriceChange1h :: real
  raw_PriceChange4h :: real
  raw_CurrentEMA20 :: real
  raw_CurrentMACD :: real
  raw_CurrentRSI7 :: real
  raw_FundingRate :: real
  raw_OpenInterest :: "OIData option"
  raw_LongerTermContext :: "LongerTermData option"
  raw_IntradaySeries :: "IntradayData option"

subsection \<open>layers/data_layer: DataProcessor\<close>

definition calculatePriceChange24h :: "Data \<Rightarrow> real" where
  "calculatePriceChange24h d =
     (case raw_IntradaySeries d of
        None \<Rightarrow> 0
      | Some s \<Rightarrow>
          (case MidPrices s of
             [] \<Rightarrow> 0
           | first # _ \<Rightarrow>
               if first > 0 then ((raw_CurrentPrice d - first) / first) * 100 else 0))"

definition calculateVolumeChange :: "Data \<Rightarrow> real" where
  "calculateVolumeChange d =
     (case raw_LongerTermContext d of
        None \<Rightarrow> 0
      | Some l \<Rightarrow>
          (let current = lt_CurrentVolume l; avg = lt_AverageVolume l
           in if avg > 0 then ((current - avg) / avg) * 100 else 0))"

definition calculateOIChange :: "Data \<Rightarrow> real" where
  "calculateOIChange d =
     (case raw_OpenInterest d of
        None \<Rightarrow> 0
      | Some oi \<Rightarrow>
          (let latest = oi_Latest oi; avg = oi_Average oi
           in if avg > 0 then ((latest - avg) / avg) * 100 else 0))"

text \<open>The loop of \<^verbatim>\<open>calculateMACDSignal\<close> adds the last nine samples from left to right.\<close>

definition calculateMACDSignal :: "Data \<Rightarrow> real" where
  "calculateMACDSignal d =
     (case raw_IntradaySeries d of
        None \<Rightarrow> raw_CurrentMACD d * 0.9
      | Some s \<Rightarrow>
          (let macdValues = MACDValues s
           in if length macdValues \<ge> 9
              then foldl (+) 0 (drop (length macdValues - 9) macdValues) / 9
              else raw_CurrentMACD d * 0.9))"

definition calculateRSI14 :: "Data \<Rightarrow> real" where
  "calculateRSI14 d =
     (case raw_IntradaySeries d of
        None \<Rightarrow> raw_CurrentRSI7 d
      | Some s \<Rightarrow>
          (if length (RSI14Values s) > 0 then last (RSI14Values s) else raw_CurrentRSI7 d))"

definition intraday_stale :: "Data \<Rightarrow> bool" where
  "intraday_stale d =
     (case raw_IntradaySeries d of None \<Rightarrow> True | Some s \<Rightarrow> length (MidPrices s) < 10)"

definition assessDataQuality :: "Data \<Rightarrow> real" where
  "assessDataQuality d =
     (let quality = 1;
          quality = (if raw_CurrentPrice d \<le> 0 then quality - 0.5 else quality);
          quality = (if raw_CurrentEMA20 d \<le> 0 then quality - 0.1 else quality);
          quality = (if raw_CurrentRSI7 d \<le> 0 \<or> raw_CurrentRSI7 d > 100
                     then quality - 0.1 else quality);
          quality = (if intraday_stale d then quality - 0.2 else quality);
          quality = (if quality < 0 then 0 else quality)
      in quality)"

text \<open>
  \<^verbatim>\<open>generateCompressedSummary\<close> formats the record with \<^verbatim>\<open>fmt.Sprintf\<close> and then limits
  the length. The formatting of the standard library is the parameter \<open>sprintf\<close>; the
  truncation is the source's.
\<close>

definition generateCompressedSummary ::
  "(CleanedMarketData \<Rightarrow> string) \<Rightarrow> CleanedMarketData \<Rightarrow> string" where
  "generateCompressedSummary sprintf d =
     (let summary = sprintf d
      in if length summary > 650 then take 647 summary @ ''...'' else summary)"

definition ProcessMarketData ::
  "(CleanedMarketData \<Rightarrow> string) \<Rightarrow> DataLayerConfig \<Rightarrow> Data option
     \<Rightarrow> error + CleanedMarketData" where
  "ProcessMarketData sprintf cfg rawData =
     (case rawData of
        None \<Rightarrow> Inl (Err ''raw data is nil'')
      | Some d \<Rightarrow>
          (let quality = assessDataQuality d;
               cleaned = \<lparr>
                 cmd_Symbol = raw_Symbol d,
                 cmd_CurrentPrice = raw_CurrentPrice d,
                 cmd_PriceChange1h = raw_PriceChange1h d,
                 cmd_PriceChange4h = raw_PriceChange4h d,
                 cmd_PriceChange24h = calculatePriceChange24h d,
                 cmd_EMA20 = raw_CurrentEMA20 d,
                 cmd_EMA50 = (case raw_LongerTermContext d of None \<Rightarrow> 0 | Some l \<Rightarrow> lt_EMA50 l),
                 cmd_MACD = raw_CurrentMACD d,
                 cmd_MACDSignal = calculateMACDSignal d,
                 cmd_RSI7 = raw_CurrentRSI7 d,
                 cmd_RSI14 = calculateRSI14 d,
                 cmd_ATR = (case raw_LongerTermContext d of None \<Rightarrow> 0 | Some l \<Rightarrow> lt_ATR14 l),
                 cmd_Volume24h =
                   (case raw_LongerTermContext d of None \<Rightarrow> 0 | Some l \<Rightarrow> lt_CurrentVolume l),
                 cmd_VolumeChange =
                   (case raw_LongerTermContext d of None \<Rightarrow> 0 | Some _ \<Rightarrow> calculateVolumeChange d),
                 cmd_OpenInterest =
                   (case raw_OpenInterest d of None \<Rightarrow> 0 | Some oi \<Rightarrow> oi_Latest oi),
                 cmd_OIChange =
                   (case raw_OpenInterest d of None \<Rightarrow> 0 | Some _ \<Rightarrow> calculateOIChange d),
                 cmd_FundingRate = raw_FundingRate d,
                 cmd_LongShortRatio = 0,
                 cmd_TopTraderRatio = 0,
                 cmd_DataQuality = quality,
                 cmd_IsValid = (quality \<ge> MinDataQuality cfg),
                 cmd_CompressedSummary = [] \<rparr>
           in Inr (cleaned \<lparr> cmd_CompressedSummary := generateCompressedSummary sprintf cleaned \<rparr>)))"

subsection \<open>layers/data_layer: RiskCalculator\<close>

record RiskCalculator =
  rc_config :: DataLayerConfig
  totalBalance :: real
  availableBalance :: real
  usedMargin :: real
  dailyPnL :: real
  consecutiveLosses :: int
  circuitBreakerActive :: bool

definition NewRiskCalculator :: "DataLayerConfig \<Rightarrow> RiskCalculator" where
  "NewRiskCalculator cfg =
     \<lparr> rc_config = cfg, totalBalance = 0, availableBalance = 0, usedMargin = 0,
       dailyPnL = 0, consecutiveLosses = 0, circuitBreakerActive = False \<rparr>"

definition rc_UpdateAccountInfo :: "RiskCalculator \<Rightarrow> real \<Rightarrow> real \<Rightarrow> real \<Rightarrow> RiskCalculator" where
  "rc_UpdateAccountInfo rc totalBalance' availableBalance' usedMargin' =
     rc \<lparr> totalBalance := totalBalance', availableBalance := availableBalance',
          usedMargin := usedMargin' \<rparr>"

definition rc_UpdateDailyPnL :: "RiskCalculator \<Rightarrow> real \<Rightarrow> RiskCalculator" where
  "rc_UpdateDailyPnL rc pnl =
     (let rc = rc \<lparr> dailyPnL := pnl \<rparr>
      in if CircuitBreakerEnabled (rc_config rc)
         then (let maxLoss = totalBalance rc * MaxDailyLossPercent (rc_config rc) / 100
               in if dailyPnL rc < - maxLoss then rc \<lparr> circuitBreakerActive := True \<rparr> else rc)
         else rc)"

definition rc_RecordTradeResult :: "RiskCalculator \<Rightarrow> bool \<Rightarrow> RiskCalculator" where
  "rc_RecordTradeResult rc isWin =
     (let rc = (if isWin then rc \<lparr> consecutiveLosses := 0 \<rparr>
                else rc \<lparr> consecutiveLosses := consecutiveLosses rc + 1 \<rparr>)
      in if CircuitBreakerEnabled (rc_config rc)
         then (if consecutiveLosses rc \<ge> MaxConsecutiveLosses (rc_config rc)
               then rc \<lparr> circuitBreakerActive := True \<rparr> else rc)
         else rc)"

definition rc_ResetCircuitBreaker :: "RiskCalculator \<Rightarrow> RiskCalculator" where
  "rc_ResetCircuitBreaker rc =
     rc \<lparr> circuitBreakerActive := False, consecutiveLosses := 0, dailyPnL := 0 \<rparr>"

definition calculateRecommendedLeverage :: "RiskCalculator \<Rightarrow> CleanedMarketData \<Rightarrow> int" where
  "calculateRecommendedLeverage rc d =
     (let baseLeverage = DefaultLeverage (rc_config rc);
          baseLeverage =
            (if cmd_ATR d > 0 \<and> cmd_CurrentPrice d > 0
             then (let volatility = cmd_ATR d / cmd_CurrentPrice d * 100
                   in if volatility > 5 then max 1 (baseLeverage - 2)
                      else if volatility > 3 then max 1 (baseLeverage - 1)
                      else baseLeverage)
             else baseLeverage);
          baseLeverage =
            (if cmd_RSI14 d > 70 \<or> cmd_RSI14 d < 30 then max 1 (baseLeverage - 1)
             else baseLeverage);
          baseLeverage =
            (if baseLeverage > MaxLeverage (rc_config rc) then MaxLeverage (rc_config rc)
             else baseLeverage)
      in baseLeverage)"

definition calculateLongStopLoss :: "CleanedMarketData \<Rightarrow> real" where
  "calculateLongStopLoss d =
     (if cmd_ATR d > 0 then cmd_CurrentPrice d - (cmd_ATR d * 2)
      else cmd_CurrentPrice d * 0.98)"

definition calculateLongTakeProfit :: "CleanedMarketData \<Rightarrow> real" where
  "calculateLongTakeProfit d =
     (let stopLoss = calculateLongStopLoss d;
          risk = cmd_CurrentPrice d - stopLoss
      in cmd_CurrentPrice d + (risk * 2))"

definition calculateShortStopLoss :: "CleanedMarketData \<Rightarrow> real" where
  "calculateShortStopLoss d =
     (if cmd_ATR d > 0 then cmd_CurrentPrice d + (cmd_ATR d * 2)
      else cmd_CurrentPrice d * 1.02)"

definition calculateShortTakeProfit :: "CleanedMarketData \<Rightarrow> real" where
  "calculateShortTakeProfit d =
     (let stopLoss = calculateShortStopLoss d;
          risk = stopLoss - cmd_CurrentPrice d
      in cmd_CurrentPrice d - (risk * 2))"

definition assessRiskLevel :: "RiskCalculator \<Rightarrow> RiskMetrics \<Rightarrow> string" where
  "assessRiskLevel rc m =
     (let score = (0::int);
          score = (if rm_MarginUsagePercent m > 80 then score + 3
                   else if rm_MarginUsagePercent m > 60 then score + 2
                   else if rm_MarginUsagePercent m > 40 then score + 1
                   else score);
          score = (if rm_RecommendedLeverage m \<ge> 5 then score + 2
                   else if rm_RecommendedLeverage m \<ge> 3 then score + 1
                   else score);
          score = (if totalBalance rc > 0
                   then (let lossPercent = rm_MaxLossUSD m / totalBalance rc * 100
                         in if lossPercent > 2 then score + 2
                            else if lossPercent > 1 then score + 1
                            else score)
                   else score);
          score = (if consecutiveLosses rc \<ge> 2 then score + 1 else score)
      in if score \<ge> 5 then ''extreme''
         else if score \<ge> 3 then ''high''
         else if score \<ge> 1 then ''medium''
         else ''low'')"

definition canTrade :: "RiskCalculator \<Rightarrow> RiskMetrics \<Rightarrow> bool \<times> msg" where
  "canTrade rc m =
     (if circuitBreakerActive rc then (False, Lit ''circuit breaker triggered'')
      else if availableBalance rc < rm_RequiredMargin m
      then (False, Fmt ''insufficient available balance, need %.2f, available %.2f''
                     [rm_RequiredMargin m, availableBalance rc])
      else if rm_MarginUsagePercent m > 90
      then (False, Fmt ''margin usage too high: %.1f%%'' [rm_MarginUsagePercent m])
      else if rm_RiskLevel m = ''extreme'' then (False, Lit ''risk level too high'')
      else if rm_StopLossPrice m \<le> 0 then (False, Lit ''stop-loss price invalid'')
      else (True, Lit ''risk check passed''))"

text \<open>
  \<^verbatim>\<open>CalculateRiskMetrics\<close> fills a zero-valued \<^verbatim>\<open>RiskMetrics\<close> step by step; the two
  pre-checks return it early with only the rejection fields set.
\<close>

definition zero_RiskMetrics :: "string \<Rightarrow> RiskMetrics" where
  "zero_RiskMetrics symbol =
     \<lparr> rm_Symbol = symbol, rm_MaxPositionSizeUSD = 0, rm_RecommendedLeverage = 0,
       rm_StopLossPrice = 0, rm_TakeProfitPrice = 0, rm_MaxLossUSD = 0,
       rm_RequiredMargin = 0, rm_MarginUsagePercent = 0, rm_RiskLevel = [],
       rm_CanTrade = False, rm_RiskReason = NoMsg \<rparr>"

definition CalculateRiskMetrics ::
  "RiskCalculator \<Rightarrow> Direction \<Rightarrow> CleanedMarketData option \<Rightarrow> error + RiskMetrics" where
  "CalculateRiskMetrics rc direction marketData =
     (case marketData of
        None \<Rightarrow> Inl (Err ''market data is nil'')
      | Some d \<Rightarrow>
          (let metrics = zero_RiskMetrics (cmd_Symbol d)
           in if circuitBreakerActive rc
              then Inr (metrics \<lparr> rm_CanTrade := False,
                          rm_RiskReason :=
                            Fmt ''circuit breaker: daily loss %.2f%% or %d consecutive losses''
                              [- dailyPnL rc / totalBalance rc * 100,
                               of_int (consecutiveLosses rc)],
                          rm_RiskLevel := ''extreme'' \<rparr>)
              else if totalBalance rc \<le> 0 \<or> availableBalance rc \<le> 0
              then Inr (metrics \<lparr> rm_CanTrade := False,
                          rm_RiskReason := Lit ''insufficient account balance'',
                          rm_RiskLevel := ''extreme'' \<rparr>)
              else
                (let maxRisk = totalBalance rc * MaxSingleTradeRiskPercent (rc_config rc) / 100;
                     metrics = metrics \<lparr> rm_MaxPositionSizeUSD := maxRisk / 0.02 \<rparr>;
                     maxAccountRisk = totalBalance rc * MaxAccountRiskPercent (rc_config rc) / 100;
                     metrics = (if rm_MaxPositionSizeUSD metrics > maxAccountRisk
                                then metrics \<lparr> rm_MaxPositionSizeUSD := maxAccountRisk \<rparr>
                                else metrics);
                     metrics = metrics \<lparr> rm_RecommendedLeverage := calculateRecommendedLeverage rc d \<rparr>;
                     metrics =
                       (if direction = DirectionLong
                        then metrics \<lparr> rm_StopLossPrice := calculateLongStopLoss d,
                                       rm_TakeProfitPrice := calculateLongTakeProfit d \<rparr>
                        else if direction = DirectionShort
                        then metrics \<lparr> rm_StopLossPrice := calculateShortStopLoss d,
                                       rm_TakeProfitPrice := calculateShortTakeProfit d \<rparr>
                        else metrics);
                     metrics =
                       (if rm_StopLossPrice metrics > 0
                        then (let priceDiff = \<bar>cmd_CurrentPrice d - rm_StopLossPrice metrics\<bar>
                              in metrics \<lparr> rm_MaxLossUSD :=
                                   (priceDiff / cmd_CurrentPrice d) * rm_MaxPositionSizeUSD metrics \<rparr>)
                        else metrics);
                     metrics = metrics \<lparr> rm_RequiredMargin :=
                       rm_MaxPositionSizeUSD metrics / of_int (rm_RecommendedLeverage metrics) \<rparr>;
                     metrics =
                       (if totalBalance rc > 0
                        then (let newUsedMargin = usedMargin rc + rm_RequiredMargin metrics
                              in metrics \<lparr> rm_MarginUsagePercent :=
                                   (newUsedMargin / totalBalance rc) * 100 \<rparr>)
                        else metrics);
                     metrics = metrics \<lparr> rm_RiskLevel := assessRiskLevel rc metrics \<rparr>;
                     ct = canTrade rc metrics
                 in Inr (metrics \<lparr> rm_CanTrade := fst ct, rm_RiskReason := snd ct \<rparr>))))"

subsection \<open>layers/ai_layer: the oracle and the keyword helper\<close>

text \<open>
  The oracle client (\<^verbatim>\<open>mcp.Client.SendMessage\<close>) and \<^verbatim>\<open>json.Unmarshal\<close> are outside the
  repository. One call and its decoding have three outcomes: the call fails, the call
  returns a text that does not decode, or the text decodes to the fields of the result
  struct.
\<close>

datatype 'a oracle_reply = CallFailed | Malformed string | Decoded 'a

definition contains :: "string \<Rightarrow> string \<Rightarrow> bool" where
  "contains text substr = (length text > 0 \<and> length substr > 0)"

text \<open>The Chinese keywords of the text parsers, as their UTF-8 bytes.\<close>

definition zh_trend :: string where
  "zh_trend = [CHR 0xE8, CHR 0xB6, CHR 0x8B, CHR 0xE5, CHR 0x8A, CHR 0xBF]"
definition zh_ranging :: string where
  "zh_ranging = [CHR 0xE9, CHR 0x9C, CHR 0x87, CHR 0xE8, CHR 0x8D, CHR 0xA1]"
definition zh_volatile :: string where
  "zh_volatile = [CHR 0xE6, CHR 0xB3, CHR 0xA2, CHR 0xE5, CHR 0x8A, CHR 0xA8]"
definition zh_consolidate :: string where
  "zh_consolidate = [CHR 0xE6, CHR 0x95, CHR 0xB4, CHR 0xE7, CHR 0x90, CHR 0x86]"
definition zh_breakout :: string where
  "zh_breakout = [CHR 0xE7, CHR 0xAA, CHR 0x81, CHR 0xE7, CHR 0xA0, CHR 0xB4]"
definition zh_go_long :: string where
  "zh_go_long = [CHR 0xE5, CHR 0x81, CHR 0x9A, CHR 0xE5, CHR 0xA4, CHR 0x9A]"
definition zh_buy :: string where
  "zh_buy = [CHR 0xE4, CHR 0xB9, CHR 0xB0, CHR 0xE5, CHR 0x85, CHR 0xA5]"
definition zh_go_short :: string where
  "zh_go_short = [CHR 0xE5, CHR 0x81, CHR 0x9A, CHR 0xE7, CHR 0xA9, CHR 0xBA]"
definition zh_sell :: string where
  "zh_sell = [CHR 0xE5, CHR 0x8D, CHR 0x96, CHR 0xE5, CHR 0x87, CHR 0xBA]"
definition zh_watch :: string where
  "zh_watch = [CHR 0xE8, CHR 0xA7, CHR 0x82, CHR 0xE6, CHR 0x9C, CHR 0x9B]"
definition zh_wait :: string where
  "zh_wait = [CHR 0xE7, CHR 0xAD, CHR 0x89, CHR 0xE5, CHR 0xBE, CHR 0x85]"
definition zh_close_long :: string where
  "zh_close_long = [CHR 0xE5, CHR 0xB9, CHR 0xB3, CHR 0xE5, CHR 0xA4, CHR 0x9A]"
definition zh_close_short :: string where
  "zh_close_short = [CHR 0xE5, CHR 0xB9, CHR 0xB3, CHR 0xE7, CHR 0xA9, CHR 0xBA]"
definition zh_scalp :: string where
  "zh_scalp = [CHR 0xE5, CHR 0x89, CHR 0xA5, CHR 0xE5, CHR 0xA4, CHR 0xB4, CHR 0xE7, CHR 0x9A, CHR 0xAE]"

subsection \<open>layers/ai_layer: MarketAnalyzer\<close>

definition parseMarketConditionFromText :: "string \<Rightarrow> MarketCondition \<times> msg" where
  "parseMarketConditionFromText text =
     (if contains text ''trending'' \<or> contains text zh_trend
      then (MarketTrending, Lit ''parsed from text: trending market'')
      else if contains text ''ranging'' \<or> contains text zh_ranging
      then (MarketRanging, Lit ''parsed from text: ranging market'')
      else if contains text ''volatile'' \<or> contains text zh_volatile
      then (MarketVolatile, Lit ''parsed from text: volatile market'')
      else if contains text ''consolidate'' \<or> contains text zh_consolidate
      then (MarketConsolidate, Lit ''parsed from text: consolidating market'')
      else if contains text ''breakout'' \<or> contains text zh_breakout
      then (MarketBreakout, Lit ''parsed from text: breakout market'')
      else (MarketRanging, Lit ''cannot parse, default ranging''))"

text \<open>The conversion \<^verbatim>\<open>layers.MarketCondition(s)\<close> followed by \<^verbatim>\<open>isValidMarketCondition\<close>.\<close>

definition isValidMarketCondition :: "string \<Rightarrow> MarketCondition option" where
  "isValidMarketCondition s =
     (if s = ''trending'' then Some MarketTrending
      else if s = ''ranging'' then Some MarketRanging
      else if s = ''volatile'' then Some MarketVolatile
      else if s = ''consolidate'' then Some MarketConsolidate
      else if s = ''breakout'' then Some MarketBreakout
      else None)"

definition AnalyzeMarketCondition ::
  "CleanedMarketData option \<Rightarrow> (string \<times> string) oracle_reply
     \<Rightarrow> error + MarketCondition \<times> msg" where
  "AnalyzeMarketCondition marketData reply =
     (case marketData of
        None \<Rightarrow> Inl (Err ''market data is nil'')
      | Some _ \<Rightarrow>
          (case reply of
             CallFailed \<Rightarrow> Inl (Err ''AI call failed'')
           | Malformed response \<Rightarrow> Inr (parseMarketConditionFromText response)
           | Decoded (condition, reason) \<Rightarrow>
               (case isValidMarketCondition condition of
                  None \<Rightarrow> Inr (MarketRanging, Lit ''AI returned an invalid condition, default ranging'')
                | Some c \<Rightarrow> Inr (c, OracleText reason))))"

text \<open>
  \<^verbatim>\<open>AnalyzeMarketConditionWithTechnicals\<close> is a sequence of blocks, each of which either
  returns or falls through to the next. The first block (the trend test) and the third
  (the volatility test) are the functions \<open>trending_rule\<close> and \<open>volatile_rule\<close>, whose
  value \<open>None\<close> is the fall-through.
\<close>

definition trending_rule :: "CleanedMarketData \<Rightarrow> (MarketCondition \<times> msg) option" where
  "trending_rule d =
     (if cmd_EMA20 d > 0 \<and> cmd_EMA50 d > 0
      then (let emaSpread = (cmd_EMA20 d - cmd_EMA50 d) / cmd_EMA50 d * 100
            in if emaSpread > 2 \<or> emaSpread < - 2
               then (let macdConfirm =
                           ((emaSpread > 0 \<and> cmd_MACD d > 0) \<or> (emaSpread < 0 \<and> cmd_MACD d < 0))
                     in if macdConfirm
                        then (if emaSpread > 0
                              then Some (MarketTrending,
                                     Lit ''EMA20 crossed above EMA50, MACD confirms uptrend'')
                              else Some (MarketTrending,
                                     Lit ''EMA20 crossed below EMA50, MACD confirms downtrend''))
                        else None)
               else None)
      else None)"

definition volatile_rule :: "CleanedMarketData \<Rightarrow> (MarketCondition \<times> msg) option" where
  "volatile_rule d =
     (if cmd_ATR d > 0 \<and> cmd_CurrentPrice d > 0
      then (let volatility = cmd_ATR d / cmd_CurrentPrice d * 100
            in if volatility > 5
               then Some (MarketVolatile,
                      Fmt ''ATR volatility %.2f%%, market highly volatile'' [volatility])
               else None)
      else None)"

definition AnalyzeMarketConditionWithTechnicals :: "CleanedMarketData \<Rightarrow> MarketCondition \<times> msg" where
  "AnalyzeMarketConditionWithTechnicals d =
     (case trending_rule d of
        Some r \<Rightarrow> r
      | None \<Rightarrow>
          (let priceAboveEMA20 = (cmd_CurrentPrice d > cmd_EMA20 d);
               priceAboveEMA50 = (cmd_CurrentPrice d > cmd_EMA50 d)
           in if priceAboveEMA20 \<and> priceAboveEMA50 \<and> cmd_VolumeChange d > 50
              then (MarketBreakout, Lit ''price broke above EMA20 and EMA50, volume expanding'')
              else (case volatile_rule d of
                      Some r \<Rightarrow> r
                    | None \<Rightarrow>
                        if (cmd_RSI14 d > 40 \<and> cmd_RSI14 d < 60)
                           \<and> (cmd_MACD d > - 0.0001 \<and> cmd_MACD d < 0.0001)
                        then (MarketConsolidate,
                              Lit ''RSI neutral, MACD near zero, market consolidating'')
                        else (MarketRanging, Lit ''no clear trend or breakout, ranging market''))))"

subsection \<open>layers/ai_layer: OpportunityDetector\<close>

definition parseOpportunityFromText :: "string \<Rightarrow> TradingOpportunity \<times> msg" where
  "parseOpportunityFromText text =
     (if contains text ''long_entry'' \<or> contains text zh_go_long \<or> contains text zh_buy
      then (OpportunityLongEntry, Lit ''parsed from text: long opportunity'')
      else if contains text ''short_entry'' \<or> contains text zh_go_short \<or> contains text zh_sell
      then (OpportunityShortEntry, Lit ''parsed from text: short opportunity'')
      else if contains text ''long_exit'' \<or> contains text zh_close_long
      then (OpportunityLongExit, Lit ''parsed from text: long exit'')
      else if contains text ''short_exit'' \<or> contains text zh_close_short
      then (OpportunityShortExit, Lit ''parsed from text: short exit'')
      else if contains text ''scalp'' \<or> contains text zh_scalp
      then (OpportunityScalp, Lit ''parsed from text: scalp'')
      else (OpportunityNone, Lit ''no trading opportunity''))"

definition isValidOpportunity :: "string \<Rightarrow> TradingOpportunity option" where
  "isValidOpportunity s =
     (if s = ''long_entry'' then Some OpportunityLongEntry
      else if s = ''short_entry'' then Some OpportunityShortEntry
      else if s = ''long_exit'' then Some OpportunityLongExit
      else if s = ''short_exit'' then Some OpportunityShortExit
      else if s = ''scalp'' then Some OpportunityScalp
      else if s = ''none'' then Some OpportunityNone
      else None)"

definition DetectOpportunity ::
  "MarketCondition \<Rightarrow> CleanedMarketData option \<Rightarrow> (string \<times> string) oracle_reply
     \<Rightarrow> error + TradingOpportunity \<times> msg" where
  "DetectOpportunity marketCondition marketData reply =
     (case marketData of
        None \<Rightarrow> Inl (Err ''market data is nil'')
      | Some _ \<Rightarrow>
          (case reply of
             CallFailed \<Rightarrow> Inl (Err ''AI call failed'')
           | Malformed response \<Rightarrow> Inr (parseOpportunityFromText response)
           | Decoded (opportunity, reason) \<Rightarrow>
               (case isValidOpportunity opportunity of
                  None \<Rightarrow> Inr (OpportunityNone, Lit ''AI returned an invalid opportunity type'')
                | Some opp \<Rightarrow> Inr (opp, OracleText reason))))"

text \<open>
  \<^verbatim>\<open>detectTrendingOpportunity\<close> has an uptrend block and a downtrend block, each with three
  tests that return; \<open>None\<close> is the fall-through of a block.
\<close>

definition uptrend_block :: "CleanedMarketData \<Rightarrow> (TradingOpportunity \<times> msg) option" where
  "uptrend_block d =
     (if cmd_EMA20 d > cmd_EMA50 d
      then (if cmd_CurrentPrice d < cmd_EMA20 d \<and> cmd_RSI14 d < 40
            then Some (OpportunityLongEntry, Lit ''uptrend pullback to EMA20, RSI oversold, long'')
            else if cmd_MACD d > cmd_MACDSignal d \<and> cmd_MACD d > 0
            then Some (OpportunityLongEntry, Lit ''MACD golden cross in uptrend, long'')
            else if cmd_CurrentPrice d > cmd_EMA20 d \<and> cmd_RSI14 d > 50 \<and> cmd_RSI14 d < 70
            then Some (OpportunityLongEntry, Lit ''uptrend continues, price above EMA20, RSI healthy'')
            else None)
      else None)"

definition downtrend_block :: "CleanedMarketData \<Rightarrow> (TradingOpportunity \<times> msg) option" where
  "downtrend_block d =
     (if cmd_EMA20 d < cmd_EMA50 d
      then (if cmd_CurrentPrice d > cmd_EMA20 d \<and> cmd_RSI14 d > 60
            then Some (OpportunityShortEntry, Lit ''downtrend rebound to EMA20, RSI overbought, short'')
            else if cmd_MACD d < cmd_MACDSignal d \<and> cmd_MACD d < 0
            then Some (OpportunityShortEntry, Lit ''MACD death cross in downtrend, short'')
            else if cmd_CurrentPrice d < cmd_EMA20 d \<and> cmd_RSI14 d < 50 \<and> cmd_RSI14 d > 30
            then Some (OpportunityShortEntry, Lit ''downtrend continues, price below EMA20'')
            else None)
      else None)"

definition detectTrendingOpportunity :: "CleanedMarketData \<Rightarrow> TradingOpportunity \<times> msg" where
  "detectTrendingOpportunity d =
     (case uptrend_block d of
        Some r \<Rightarrow> r
      | None \<Rightarrow>
          (case downtrend_block d of
             Some r \<Rightarrow> r
           | None \<Rightarrow> (OpportunityNone, Lit ''trending market but no clear entry'')))"

definition detectBreakoutOpportunity :: "CleanedMarketData \<Rightarrow> TradingOpportunity \<times> msg" where
  "detectBreakoutOpportunity d =
     (if cmd_CurrentPrice d > cmd_EMA20 d \<and> cmd_CurrentPrice d > cmd_EMA50 d
         \<and> cmd_VolumeChange d > 50 \<and> cmd_RSI14 d > 55
      then (OpportunityLongEntry, Lit ''upward breakout, volume expanding, long'')
      else if cmd_CurrentPrice d < cmd_EMA20 d \<and> cmd_CurrentPrice d < cmd_EMA50 d
         \<and> cmd_VolumeChange d > 50 \<and> cmd_RSI14 d < 45
      then (OpportunityShortEntry, Lit ''downward breakout, volume expanding, short'')
      else (OpportunityNone, Lit ''breakout not confirmed''))"

definition detectRangingOpportunity :: "CleanedMarketData \<Rightarrow> TradingOpportunity \<times> msg" where
  "detectRangingOpportunity d =
     (if cmd_RSI14 d < 30
      then (OpportunityLongEntry, Lit ''ranging market, RSI oversold, buy low'')
      else if cmd_RSI14 d > 70
      then (OpportunityShortEntry, Lit ''ranging market, RSI overbought, sell high'')
      else if cmd_CurrentPrice d < cmd_EMA50 d \<and> cmd_RSI14 d < 40
      then (OpportunityLongEntry, Lit ''price near support EMA50, oversold'')
      else if cmd_CurrentPrice d > cmd_EMA50 d \<and> cmd_RSI14 d > 60
      then (OpportunityShortEntry, Lit ''price near resistance EMA50, overbought'')
      else (OpportunityNone, Lit ''ranging market, wait for a better entry''))"

definition detectConsolidateOpportunity :: "CleanedMarketData \<Rightarrow> TradingOpportunity \<times> msg" where
  "detectConsolidateOpportunity d =
     (OpportunityNone, Lit ''consolidation, wait for direction'')"

definition detectVolatileOpportunity :: "CleanedMarketData \<Rightarrow> TradingOpportunity \<times> msg" where
  "detectVolatileOpportunity d =
     (if cmd_RSI7 d < 25 \<or> cmd_RSI7 d > 75
      then (OpportunityScalp, Lit ''volatile market, short-term reversal'')
      else (OpportunityNone, Lit ''volatile market, risk too high, wait''))"

definition DetectOpportunityWithTechnicals ::
  "MarketCondition \<Rightarrow> CleanedMarketData \<Rightarrow> TradingOpportunity \<times> msg" where
  "DetectOpportunityWithTechnicals marketCondition d =
     (case marketCondition of
        MarketTrending \<Rightarrow> detectTrendingOpportunity d
      | MarketBreakout \<Rightarrow> detectBreakoutOpportunity d
      | MarketRanging \<Rightarrow> detectRangingOpportunity d
      | MarketConsolidate \<Rightarrow> detectConsolidateOpportunity d
      | MarketVolatile \<Rightarrow> detectVolatileOpportunity d)"

subsection \<open>layers/ai_layer: DecisionMaker\<close>

text \<open>
  A \<^verbatim>\<open>time.Time\<close> is a number of nanoseconds on a fixed time line and a \<^verbatim>\<open>time.Duration\<close> a
  number of nanoseconds; \<^verbatim>\<open>Time.Sub\<close> saturates at the largest and smallest duration. The
  zero \<^verbatim>\<open>time.Time{}\<close> is the first instant of year 1.
\<close>

definition maxDuration :: int where "maxDuration = 2 ^ 63 - 1"
definition minDuration :: int where "minDuration = - (2 ^ 63)"
definition Hour :: int where "Hour = 3600 * 1000000000"
definition Minute :: int where "Minute = 60 * 1000000000"
definition zeroTime :: int where "zeroTime = - 62135596800 * 1000000000"

definition Sub :: "int \<Rightarrow> int \<Rightarrow> int" where
  "Sub t u = (let d = t - u
              in if d > maxDuration then maxDuration
                 else if d < minDuration then minDuration else d)"

record DecisionMaker =
  dm_config :: AILayerConfig
  lastDecisionTime :: int
  decisionsThisHour :: int

definition NewDecisionMaker :: "AILayerConfig \<Rightarrow> DecisionMaker" where
  "NewDecisionMaker cfg = \<lparr> dm_config = cfg, lastDecisionTime = zeroTime, decisionsThisHour = 0 \<rparr>"

definition checkRateLimit :: "DecisionMaker \<Rightarrow> int \<Rightarrow> DecisionMaker \<times> bool" where
  "checkRateLimit dm now =
     (let dm = (if Sub now (lastDecisionTime dm) > Hour then dm \<lparr> decisionsThisHour := 0 \<rparr> else dm)
      in if decisionsThisHour dm \<ge> MaxDecisionsPerHour (dm_config dm) then (dm, False)
         else if Sub now (lastDecisionTime dm) < CooldownMinutes (dm_config dm) * Minute
         then (dm, False)
         else (dm, True))"

definition updateRateLimit :: "DecisionMaker \<Rightarrow> int \<Rightarrow> DecisionMaker" where
  "updateRateLimit dm now =
     dm \<lparr> lastDecisionTime := now, decisionsThisHour := decisionsThisHour dm + 1 \<rparr>"

definition parseDecisionFromText :: "string \<Rightarrow> Direction \<times> real \<times> msg" where
  "parseDecisionFromText text =
     (let direction = DirectionWait;
          confidence = 0.75;
          direction =
            (if contains text ''long'' \<or> contains text zh_go_long \<or> contains text zh_buy
             then DirectionLong
             else if contains text ''short'' \<or> contains text zh_go_short \<or> contains text zh_sell
             then DirectionShort
             else if contains text ''wait'' \<or> contains text zh_watch \<or> contains text zh_wait
             then DirectionWait
             else direction)
      in (direction, confidence, Lit ''decision parsed from text''))"

text \<open>
  \<^verbatim>\<open>callAIForDecision\<close> builds the user prompt from a template with 261 fixed bytes and five
  inserted strings, so the prompt is longer than any \<^verbatim>\<open>MaxPromptLength\<close> below 3; there the
  slice \<^verbatim>\<open>userPrompt[:MaxPromptLength-3]\<close> has a negative bound and panics, before the
  oracle is called. For larger values the prompt is only shortened, which the oracle
  alone sees.
\<close>

definition callAIForDecision ::
  "AILayerConfig \<Rightarrow> (string \<times> real \<times> string) oracle_reply
     \<Rightarrow> (error + Direction \<times> real \<times> msg) outcome" where
  "callAIForDecision cfg reply =
     (if MaxPromptLength cfg - 3 < 0 then Panic ''slice bounds out of range''
      else
        (case reply of
           CallFailed \<Rightarrow> Done (Inl (Err ''AI call failed''))
         | Malformed response \<Rightarrow> Done (Inr (parseDecisionFromText response))
         | Decoded (dir, conf, reasoning) \<Rightarrow>
             (let direction =
                    (if dir = ''long'' then DirectionLong
                     else if dir = ''short'' then DirectionShort
                     else DirectionWait);
                  confidence = conf;
                  confidence = (if confidence < 0.7 then 0.7 else confidence);
                  confidence = (if confidence > 1.0 then 1.0 else confidence)
              in Done (Inr (direction, confidence, OracleText reasoning)))))"

definition calculateConfidence :: "CleanedMarketData \<Rightarrow> bool \<Rightarrow> real" where
  "calculateConfidence d isLong =
     (let confidence = 0.75;
          confidence = (if isLong \<and> cmd_RSI14 d < 40 then confidence + 0.05
                        else if \<not> isLong \<and> cmd_RSI14 d > 60 then confidence + 0.05
                        else confidence);
          confidence = (if isLong \<and> cmd_MACD d > cmd_MACDSignal d then confidence + 0.05
                        else if \<not> isLong \<and> cmd_MACD d < cmd_MACDSignal d then confidence + 0.05
                        else confidence);
          confidence = (if isLong \<and> cmd_CurrentPrice d > cmd_EMA20 d then confidence + 0.05
                        else if \<not> isLong \<and> cmd_CurrentPrice d < cmd_EMA20 d then confidence + 0.05
                        else confidence);
          confidence = (if cmd_VolumeChange d > 30 then confidence + 0.05 else confidence);
          confidence = (if confidence > 1.0 then 1.0 else confidence)
      in confidence)"

definition makeRuleBasedDecision ::
  "MarketCondition \<Rightarrow> TradingOpportunity \<Rightarrow> CleanedMarketData \<Rightarrow> Direction \<times> real" where
  "makeRuleBasedDecision condition opportunity d =
     (case opportunity of
        OpportunityLongEntry \<Rightarrow> (DirectionLong, calculateConfidence d True)
      | OpportunityShortEntry \<Rightarrow> (DirectionShort, calculateConfidence d False)
      | OpportunityScalp \<Rightarrow>
          (if cmd_RSI7 d < 30 then (DirectionLong, 0.75)
           else if cmd_RSI7 d > 70 then (DirectionShort, 0.75)
           else (DirectionWait, 0.75))
      | _ \<Rightarrow> (DirectionWait, 0))"

text \<open>
  The oracle's three replies and the two clock readings of one \<^verbatim>\<open>MakeDecision\<close> call
  (in \<^verbatim>\<open>checkRateLimit\<close> and in \<^verbatim>\<open>updateRateLimit\<close>).
\<close>

record AIWorld =
  now_check :: int
  now_update :: int
  condition_reply :: "(string \<times> string) oracle_reply"
  opportunity_reply :: "(string \<times> string) oracle_reply"
  decision_reply :: "(string \<times> real \<times> string) oracle_reply"

text \<open>
  \<^verbatim>\<open>MakeDecision\<close> returns the decision with a nil error on every path, so the model
  returns the decision alone, next to the updated rate-limit state. Its argument is not
  nil (the orchestrator passes the cleaned record).
\<close>

definition MakeDecision ::
  "DecisionMaker \<Rightarrow> AIWorld \<Rightarrow> CleanedMarketData \<Rightarrow> DecisionMaker \<times> AIDecision outcome" where
  "MakeDecision dm w marketData =
     (let (dm, allowed) = checkRateLimit dm (now_check w)
      in if \<not> allowed
         then (dm, Done \<lparr> ai_Symbol = cmd_Symbol marketData,
                           ai_MarketCondition = MarketRanging,
                           ai_ConditionReason = Lit ''rate limit: hourly decision maximum reached'',
                           ai_Opportunity = OpportunityNone,
                           ai_OpportunityReason = Lit ''waiting for cooldown'',
                           ai_Direction = DirectionWait,
                           ai_Confidence = 0,
                           ai_ChainOfThought = NoMsg,
                           ai_ModelUsed = [] \<rparr>)
         else
           (let (marketCondition, conditionReason) =
                  (case AnalyzeMarketCondition (Some marketData) (condition_reply w) of
                     Inl _ \<Rightarrow> AnalyzeMarketConditionWithTechnicals marketData
                   | Inr r \<Rightarrow> r);
                (opportunity, oppReason) =
                  (case DetectOpportunity marketCondition (Some marketData) (opportunity_reply w) of
                     Inl _ \<Rightarrow> DetectOpportunityWithTechnicals marketCondition marketData
                   | Inr r \<Rightarrow> r)
            in case callAIForDecision (dm_config dm) (decision_reply w) of
                 Panic p \<Rightarrow> (dm, Panic p)
               | Done r \<Rightarrow>
                   (let (direction, confidence, chainOfThought) =
                          (case r of
                             Inl _ \<Rightarrow>
                               (let (dir, conf) =
                                      makeRuleBasedDecision marketCondition opportunity marketData
                                in (dir, conf, Lit ''AI call failed, rule engine decides''))
                           | Inr x \<Rightarrow> x);
                        (direction, chainOfThought) =
                          (if confidence < MinConfidence (dm_config dm)
                           then (DirectionWait,
                                 Cat chainOfThought
                                   (Fmt ''confidence %.2f below threshold %.2f, changed to wait''
                                      [confidence, MinConfidence (dm_config dm)]))
                           else (direction, chainOfThought));
                        decision = \<lparr> ai_Symbol = cmd_Symbol marketData,
                                     ai_MarketCondition = marketCondition,
                                     ai_ConditionReason = conditionReason,
                                     ai_Opportunity = opportunity,
                                     ai_OpportunityReason = oppReason,
                                     ai_Direction = direction,
                                     ai_Confidence = confidence,
                                     ai_ChainOfThought = chainOfThought,
                                     ai_ModelUsed = Model (dm_config dm) \<rparr>
                    in (updateRateLimit dm (now_update w), Done decision))))"

subsection \<open>layers/execution_layer: ParameterCalculator\<close>

text \<open>
  The parameters are a \<^verbatim>\<open>map[string]interface{}\<close>: a partial map from keys to
  dynamically typed values.
\<close>

datatype go_value = GoString string | GoFloat real | GoInt int | GoBool bool | GoNil

type_synonym params = "string \<rightharpoonup> go_value"

definition determineAction :: "AIDecision \<Rightarrow> string" where
  "determineAction decision =
     (case ai_Direction decision of
        DirectionLong \<Rightarrow> ''open_long''
      | DirectionShort \<Rightarrow> ''open_short''
      | DirectionWait \<Rightarrow> ''wait'')"

definition calculatePositionSize ::
  "ExecutionLayerConfig \<Rightarrow> AIDecision \<Rightarrow> RiskMetrics \<Rightarrow> CleanedMarketData \<Rightarrow> real \<times> real" where
  "calculatePositionSize cfg decision riskMetrics marketData =
     (let basePositionUSD = rm_MaxPositionSizeUSD riskMetrics;
          confidenceMultiplier =
            (if ai_Confidence decision \<ge> 0.7 \<and> ai_Confidence decision \<le> 1.0
             then (ai_Confidence decision - 0.7) / 0.3 * 0.5 + 0.5
             else if ai_Confidence decision < 0.7 then 0.5
             else 1.0);
          adjustedPositionUSD = basePositionUSD * confidenceMultiplier;
          adjustedPositionUSD =
            (if EnablePositionSizing cfg
             then (if PositionSizingMethod cfg = ''fixed'' then basePositionUSD * 0.5
                   else if PositionSizingMethod cfg = ''kelly''
                   then (let winRate = ai_Confidence decision;
                             lossRate = 1 - winRate;
                             payoffRatio = 2.0;
                             kellyFraction = (payoffRatio * winRate - lossRate) / payoffRatio;
                             kellyFraction = (if kellyFraction < 0 then 0 else kellyFraction);
                             kellyFraction = (if kellyFraction > 0.25 then 0.25 else kellyFraction)
                         in basePositionUSD * kellyFraction / 0.25)
                   else if PositionSizingMethod cfg = ''volatility''
                   then (if cmd_ATR marketData > 0 \<and> cmd_CurrentPrice marketData > 0
                         then (let volatility = cmd_ATR marketData / cmd_CurrentPrice marketData;
                                   volMultiplier = 1.0 / (1.0 + volatility * 10)
                               in basePositionUSD * volMultiplier)
                         else adjustedPositionUSD)
                   else adjustedPositionUSD)
             else adjustedPositionUSD);
          quantity = (if cmd_CurrentPrice marketData > 0
                      then adjustedPositionUSD / cmd_CurrentPrice marketData else 0)
      in (quantity, adjustedPositionUSD))"

definition calculateLeverage :: "AIDecision \<Rightarrow> RiskMetrics \<Rightarrow> CleanedMarketData \<Rightarrow> int" where
  "calculateLeverage decision riskMetrics marketData =
     (let baseLeverage = rm_RecommendedLeverage riskMetrics;
          baseLeverage = (if ai_Confidence decision < 0.8 then max 1 (baseLeverage - 1)
                          else baseLeverage);
          baseLeverage = (case ai_MarketCondition decision of
                            MarketVolatile \<Rightarrow> max 1 (baseLeverage - 1)
                          | _ \<Rightarrow> baseLeverage)
      in baseLeverage)"

definition calculateStopLoss :: "AIDecision \<Rightarrow> RiskMetrics \<Rightarrow> CleanedMarketData \<Rightarrow> real" where
  "calculateStopLoss decision riskMetrics marketData =
     (let stopLoss = rm_StopLossPrice riskMetrics
      in if ai_MarketCondition decision = MarketVolatile
         then (if ai_Direction decision = DirectionLong then stopLoss * 0.98
               else if ai_Direction decision = DirectionShort then stopLoss * 1.02
               else stopLoss)
         else stopLoss)"

definition calculateTakeProfit :: "AIDecision \<Rightarrow> RiskMetrics \<Rightarrow> CleanedMarketData \<Rightarrow> real" where
  "calculateTakeProfit decision riskMetrics marketData =
     (let takeProfit = rm_TakeProfitPrice riskMetrics
      in if ai_Confidence decision > 0.9
         then (if ai_Direction decision = DirectionLong
               then (let risk = cmd_CurrentPrice marketData - rm_StopLossPrice riskMetrics
                     in cmd_CurrentPrice marketData + risk * 2.5)
               else if ai_Direction decision = DirectionShort
               then (let risk = rm_StopLossPrice riskMetrics - cmd_CurrentPrice marketData
                     in cmd_CurrentPrice marketData - risk * 2.5)
               else takeProfit)
         else takeProfit)"

definition determinePriority :: "AIDecision \<Rightarrow> string" where
  "determinePriority decision =
     (if ai_Confidence decision \<ge> 0.9
         \<and> (ai_MarketCondition decision = MarketBreakout
              \<or> ai_MarketCondition decision = MarketTrending)
      then ''high''
      else if ai_Confidence decision \<ge> 0.75 then ''normal''
      else ''low'')"

definition CalculateParameters ::
  "ExecutionLayerConfig \<Rightarrow> AIDecision option \<Rightarrow> RiskMetrics option
     \<Rightarrow> CleanedMarketData option \<Rightarrow> error + params" where
  "CalculateParameters cfg decision riskMetrics marketData =
     (case (decision, riskMetrics, marketData) of
        (Some dec, Some rm, Some md) \<Rightarrow>
          (let (quantity, quantityUSD) = calculatePositionSize cfg dec rm md
           in Inr (Map.empty
                (''action'' \<mapsto> GoString (determineAction dec),
                 ''quantity'' \<mapsto> GoFloat quantity,
                 ''quantity_usd'' \<mapsto> GoFloat quantityUSD,
                 ''leverage'' \<mapsto> GoInt (calculateLeverage dec rm md),
                 ''stop_loss'' \<mapsto> GoFloat (calculateStopLoss dec rm md),
                 ''take_profit'' \<mapsto> GoFloat (calculateTakeProfit dec rm md),
                 ''max_slippage_percent'' \<mapsto> GoFloat (MaxSlippagePercent cfg),
                 ''timeout_seconds'' \<mapsto> GoInt (OrderTimeoutSeconds cfg),
                 ''priority'' \<mapsto> GoString (determinePriority dec))))
      | _ \<Rightarrow> Inl (Err ''invalid input parameters''))"






subsection \<open>layers/execution_layer: RiskValidator\<close>

record RiskValidator =
  totalValidations :: int
  passedValidations :: int
  failedValidations :: int

definition NewRiskValidator :: RiskValidator where
  "NewRiskValidator = \<lparr> totalValidations = 0, passedValidations = 0, failedValidations = 0 \<rparr>"

definition validateBasicParameters :: "ExecutionPlan option \<Rightarrow> bool \<times> msg" where
  "validateBasicParameters plan =
     (case plan of
        None \<Rightarrow> (False, Lit ''execution plan is nil'')
      | Some p \<Rightarrow>
          if plan_Symbol p = [] then (False, Lit ''symbol is empty'')
          else if plan_Action p \<noteq> ''open_long'' \<and> plan_Action p \<noteq> ''open_short''
                  \<and> plan_Action p \<noteq> ''close_long'' \<and> plan_Action p \<noteq> ''close_short''
          then (False, FmtS ''invalid action: %s'' (plan_Action p))
          else if plan_Quantity p \<le> 0 then (False, Fmt ''invalid quantity: %.6f'' [plan_Quantity p])
          else if plan_QuantityUSD p \<le> 0
          then (False, Fmt ''invalid amount: %.2f'' [plan_QuantityUSD p])
          else if plan_Leverage p < 1 \<or> plan_Leverage p > 20
          then (False, FmtI ''leverage out of range: %d'' [plan_Leverage p])
          else (True, NoMsg))"

definition validateRiskMetrics :: "ExecutionPlan \<Rightarrow> RiskMetrics option \<Rightarrow> bool \<times> msg" where
  "validateRiskMetrics plan metrics =
     (case metrics of
        None \<Rightarrow> (False, Lit ''risk metrics are nil'')
      | Some m \<Rightarrow>
          if \<not> rm_CanTrade m then (False, Wrap ''risk metrics forbid trading: %s'' (rm_RiskReason m))
          else if rm_RiskLevel m = ''extreme'' then (False, Lit ''risk level too high (extreme)'')
          else if plan_QuantityUSD plan > rm_MaxPositionSizeUSD m * 1.1
          then (False, Fmt ''position above recommendation: %.2f > %.2f''
                         [plan_QuantityUSD plan, rm_MaxPositionSizeUSD m])
          else if plan_Leverage plan > rm_RecommendedLeverage m + 1
          then (False, FmtI ''leverage above recommendation: %d > %d''
                         [plan_Leverage plan, rm_RecommendedLeverage m])
          else (True, NoMsg))"

definition validateMarketData :: "ExecutionPlan \<Rightarrow> CleanedMarketData option \<Rightarrow> bool \<times> msg" where
  "validateMarketData plan data =
     (case data of
        None \<Rightarrow> (False, Lit ''market data is nil'')
      | Some d \<Rightarrow>
          if \<not> cmd_IsValid d then (False, Lit ''market data quality not acceptable'')
          else if cmd_DataQuality d < 0.8
          then (False, Fmt ''data quality too low: %.2f'' [cmd_DataQuality d])
          else if cmd_CurrentPrice d \<le> 0 then (False, Lit ''current price invalid'')
          else if cmd_PriceChange1h d > 20 \<or> cmd_PriceChange1h d < - 20
          then (False, Fmt ''abnormal price move: %.2f%%'' [cmd_PriceChange1h d])
          else (True, NoMsg))"

definition validateDecisionConsistency :: "ExecutionPlan \<Rightarrow> AIDecision option \<Rightarrow> bool \<times> msg" where
  "validateDecisionConsistency plan decision =
     (case decision of
        None \<Rightarrow> (False, Lit ''AI decision is nil'')
      | Some dec \<Rightarrow>
          (let expectedAction =
                 (case ai_Direction dec of
                    DirectionLong \<Rightarrow> ''open_long''
                  | DirectionShort \<Rightarrow> ''open_short''
                  | DirectionWait \<Rightarrow> ''wait'')
           in if plan_Action plan \<noteq> expectedAction
              then (False, FmtS ''action differs from AI decision: %s != %s''
                             (plan_Action plan @ '' '' @ expectedAction))
              else if ai_Confidence dec < 0.7
              then (False, Fmt ''AI confidence too low: %.2f'' [ai_Confidence dec])
              else if ai_Opportunity dec = OpportunityNone \<and> plan_Action plan \<noteq> ''wait''
              then (False, Lit ''no opportunity but the plan trades'')
              else (True, NoMsg)))"

text \<open>
  The two blocks of \<^verbatim>\<open>validateStopLossTakeProfit\<close>, for \<^verbatim>\<open>open_long\<close> and for
  \<^verbatim>\<open>open_short\<close>; \<open>None\<close> is the fall-through of a block.
\<close>

definition long_stop_block :: "ExecutionPlan \<Rightarrow> real \<Rightarrow> msg option" where
  "long_stop_block plan currentPrice =
     (if plan_Action plan = ''open_long''
      then (if plan_StopLoss plan \<ge> currentPrice
            then Some (Fmt ''long stop-loss invalid: %.2f >= %.2f'' [plan_StopLoss plan, currentPrice])
            else if plan_TakeProfit plan > 0 \<and> plan_TakeProfit plan \<le> currentPrice
            then Some (Fmt ''long take-profit invalid: %.2f <= %.2f''
                         [plan_TakeProfit plan, currentPrice])
            else (let stopLossPercent = (currentPrice - plan_StopLoss plan) / currentPrice * 100
                  in if stopLossPercent > 10
                     then Some (Fmt ''stop distance too large: %.2f%%'' [stopLossPercent])
                     else if stopLossPercent < 0.5
                     then Some (Fmt ''stop distance too small: %.2f%%'' [stopLossPercent])
                     else None))
      else None)"

definition short_stop_block :: "ExecutionPlan \<Rightarrow> real \<Rightarrow> msg option" where
  "short_stop_block plan currentPrice =
     (if plan_Action plan = ''open_short''
      then (if plan_StopLoss plan \<le> currentPrice
            then Some (Fmt ''short stop-loss invalid: %.2f <= %.2f'' [plan_StopLoss plan, currentPrice])
            else if plan_TakeProfit plan > 0 \<and> plan_TakeProfit plan \<ge> currentPrice
            then Some (Fmt ''short take-profit invalid: %.2f >= %.2f''
                         [plan_TakeProfit plan, currentPrice])
            else (let stopLossPercent = (plan_StopLoss plan - currentPrice) / currentPrice * 100
                  in if stopLossPercent > 10
                     then Some (Fmt ''stop distance too large: %.2f%%'' [stopLossPercent])
                     else if stopLossPercent < 0.5
                     then Some (Fmt ''stop distance too small: %.2f%%'' [stopLossPercent])
                     else None))
      else None)"

definition validateStopLossTakeProfit :: "ExecutionPlan \<Rightarrow> CleanedMarketData \<Rightarrow> bool \<times> msg" where
  "validateStopLossTakeProfit plan d =
     (let currentPrice = cmd_CurrentPrice d
      in case long_stop_block plan currentPrice of
           Some r \<Rightarrow> (False, r)
         | None \<Rightarrow>
             (case short_stop_block plan currentPrice of
                Some r \<Rightarrow> (False, r)
              | None \<Rightarrow> (True, NoMsg)))"

definition validateLeverageAndPosition :: "ExecutionPlan \<Rightarrow> CleanedMarketData \<Rightarrow> bool \<times> msg" where
  "validateLeverageAndPosition plan d =
     (if cmd_ATR d > 0 \<and> cmd_CurrentPrice d > 0
         \<and> cmd_ATR d / cmd_CurrentPrice d * 100 > 5 \<and> plan_Leverage plan > 3
      then (False, Fmt ''volatile market (%.2f%%), leverage too high: %d''
                     [cmd_ATR d / cmd_CurrentPrice d * 100, of_int (plan_Leverage plan)])
      else if cmd_RSI14 d > 80 \<and> plan_Action plan = ''open_long''
      then (False, Lit ''RSI heavily overbought, not suitable for long'')
      else if cmd_RSI14 d < 20 \<and> plan_Action plan = ''open_short''
      then (False, Lit ''RSI heavily oversold, not suitable for short'')
      else (True, NoMsg))"

text \<open>
  \<^verbatim>\<open>ValidateExecution\<close>: six checks in order, the first failure wins. After the first and
  the third check the plan and the market data are known not to be nil.
\<close>

definition rv_fail :: "RiskValidator \<Rightarrow> msg \<Rightarrow> RiskValidator \<times> bool \<times> msg" where
  "rv_fail rv reason = (rv \<lparr> failedValidations := failedValidations rv + 1 \<rparr>, False, reason)"

definition ValidateExecution ::
  "RiskValidator \<Rightarrow> ExecutionPlan option \<Rightarrow> AIDecision option \<Rightarrow> RiskMetrics option
     \<Rightarrow> CleanedMarketData option \<Rightarrow> RiskValidator \<times> bool \<times> msg" where
  "ValidateExecution rv planp decision riskMetrics marketData =
     (let rv = rv \<lparr> totalValidations := totalValidations rv + 1 \<rparr>;
          (pass, reason) = validateBasicParameters planp
      in if \<not> pass then rv_fail rv reason
         else
           (case planp of
              None \<Rightarrow> rv_fail rv (Lit ''execution plan is nil'')
            | Some plan \<Rightarrow>
                (let (pass, reason) = validateRiskMetrics plan riskMetrics
                 in if \<not> pass then rv_fail rv reason
                    else
                      (let (pass, reason) = validateMarketData plan marketData
                       in if \<not> pass then rv_fail rv reason
                          else
                            (case marketData of
                               None \<Rightarrow> rv_fail rv (Lit ''market data is nil'')
                             | Some d \<Rightarrow>
                                 (let (pass, reason) = validateDecisionConsistency plan decision
                                  in if \<not> pass then rv_fail rv reason
                                     else
                                       (let (pass, reason) = validateStopLossTakeProfit plan d
                                        in if \<not> pass then rv_fail rv reason
                                           else
                                             (let (pass, reason) =
                                                    validateLeverageAndPosition plan d
                                              in if \<not> pass then rv_fail rv reason
                                                 else
                                                   (rv \<lparr> passedValidations :=
                                                           passedValidations rv + 1 \<rparr>,
                                                    True, Lit ''risk validation passed'')))))))))"

subsection \<open>layers/data_layer: OrderExecutor, and the exchange\<close>

text \<open>
  The exchange (\<^verbatim>\<open>trader.Trader\<close>) is outside the repository. For one cycle it is the
  record of what each of its calls returns, with the elapsed time that \<^verbatim>\<open>ExecuteOrder\<close>
  measures.
\<close>

record TraderWorld =
  GetBalance_returns :: "error + params"
  SetLeverage_returns :: "error option"
  OpenLong_returns :: "error + string"
  OpenShort_returns :: "error + string"
  CloseLong_returns :: "error + string"
  CloseShort_returns :: "error + string"
  SetStopLoss_returns :: "error option"
  SetTakeProfit_returns :: "error option"
  elapsed_ms :: int

definition wrap_error :: "string \<Rightarrow> error \<Rightarrow> error" where
  "wrap_error prefix e = (case e of Err text \<Rightarrow> Err (prefix @ text))"

definition error_text :: "error \<Rightarrow> string" where
  "error_text e = (case e of Err text \<Rightarrow> text)"

definition set_stops :: "TraderWorld \<Rightarrow> ExecutionPlan \<Rightarrow> OrderResult \<Rightarrow> OrderResult" where
  "set_stops tw plan result =
     (let result =
            (if plan_StopLoss plan > 0
             then (case SetStopLoss_returns tw of
                     Some e \<Rightarrow> result \<lparr> or_ErrorMessage :=
                       Lit (''warning: failed to set stop loss: '' @ error_text e) \<rparr>
                   | None \<Rightarrow> result)
             else result);
          result =
            (if plan_TakeProfit plan > 0
             then (case SetTakeProfit_returns tw of
                     Some e \<Rightarrow>
                       (let result = (if or_ErrorMessage result \<noteq> NoMsg
                                      then result \<lparr> or_ErrorMessage :=
                                             Cat (or_ErrorMessage result) (Lit ''; '') \<rparr>
                                      else result)
                        in result \<lparr> or_ErrorMessage :=
                             Cat (or_ErrorMessage result)
                               (Lit (''warning: failed to set take profit: '' @ error_text e)) \<rparr>)
                   | None \<Rightarrow> result)
             else result)
      in result)"

definition executeOpenLong ::
  "TraderWorld \<Rightarrow> ExecutionPlan \<Rightarrow> OrderResult \<Rightarrow> OrderResult \<times> error option" where
  "executeOpenLong tw plan result =
     (case SetLeverage_returns tw of
        Some e \<Rightarrow> (result, Some (wrap_error ''failed to set leverage: '' e))
      | None \<Rightarrow>
          (case OpenLong_returns tw of
             Inl e \<Rightarrow> (result, Some (wrap_error ''failed to open long: '' e))
           | Inr orderId \<Rightarrow>
               (set_stops tw plan
                  (result \<lparr> or_OrderID := orderId, or_FilledQuantity := plan_Quantity plan \<rparr>),
                None)))"

definition executeOpenShort ::
  "TraderWorld \<Rightarrow> ExecutionPlan \<Rightarrow> OrderResult \<Rightarrow> OrderResult \<times> error option" where
  "executeOpenShort tw plan result =
     (case SetLeverage_returns tw of
        Some e \<Rightarrow> (result, Some (wrap_error ''failed to set leverage: '' e))
      | None \<Rightarrow>
          (case OpenShort_returns tw of
             Inl e \<Rightarrow> (result, Some (wrap_error ''failed to open short: '' e))
           | Inr orderId \<Rightarrow>
               (set_stops tw plan
                  (result \<lparr> or_OrderID := orderId, or_FilledQuantity := plan_Quantity plan \<rparr>),
                None)))"

definition executeCloseLong ::
  "TraderWorld \<Rightarrow> ExecutionPlan \<Rightarrow> OrderResult \<Rightarrow> OrderResult \<times> error option" where
  "executeCloseLong tw plan result =
     (case CloseLong_returns tw of
        Inl e \<Rightarrow> (result, Some (wrap_error ''failed to close long: '' e))
      | Inr orderId \<Rightarrow>
          (result \<lparr> or_OrderID := orderId, or_FilledQuantity := plan_Quantity plan \<rparr>, None))"

definition executeCloseShort ::
  "TraderWorld \<Rightarrow> ExecutionPlan \<Rightarrow> OrderResult \<Rightarrow> OrderResult \<times> error option" where
  "executeCloseShort tw plan result =
     (case CloseShort_returns tw of
        Inl e \<Rightarrow> (result, Some (wrap_error ''failed to close short: '' e))
      | Inr orderId \<Rightarrow>
          (result \<lparr> or_OrderID := orderId, or_FilledQuantity := plan_Quantity plan \<rparr>, None))"

definition zero_OrderResult :: OrderResult where
  "zero_OrderResult =
     \<lparr> or_Success = False, or_OrderID = [], or_FilledQuantity = 0, or_AvgPrice = 0,
       or_ExecutionTimeMs = 0, or_ErrorMessage = NoMsg \<rparr>"

definition finish_order :: "TraderWorld \<Rightarrow> OrderResult \<times> error option \<Rightarrow> OrderResult \<times> error option" where
  "finish_order tw r =
     (case r of (result, err) \<Rightarrow>
        (let result = result \<lparr> or_ExecutionTimeMs := elapsed_ms tw \<rparr>
         in case err of
              Some e \<Rightarrow>
                (let result = result \<lparr> or_Success := False \<rparr>;
                     result = (if or_ErrorMessage result = NoMsg
                               then result \<lparr> or_ErrorMessage := Lit (error_text e) \<rparr>
                               else result)
                 in (result, Some e))
            | None \<Rightarrow> (result \<lparr> or_Success := True \<rparr>, None)))"

definition ExecuteOrder :: "TraderWorld \<Rightarrow> ExecutionPlan option \<Rightarrow> OrderResult \<times> error option" where
  "ExecuteOrder tw planp =
     (let result = zero_OrderResult
      in case planp of
           None \<Rightarrow>
             (result \<lparr> or_Success := False, or_ErrorMessage := Lit ''execution plan is nil'' \<rparr>,
              Some (Err ''execution plan is nil''))
         | Some plan \<Rightarrow>
             if \<not> plan_RiskCheckPassed plan
             then (result \<lparr> or_Success := False,
                     or_ErrorMessage := Wrap ''risk check failed: %s'' (plan_RiskCheckReason plan) \<rparr>,
                   Some (Err ''risk check failed''))
             else if plan_Action plan = ''open_long''
             then finish_order tw (executeOpenLong tw plan result)
             else if plan_Action plan = ''open_short''
             then finish_order tw (executeOpenShort tw plan result)
             else if plan_Action plan = ''close_long''
             then finish_order tw (executeCloseLong tw plan result)
             else if plan_Action plan = ''close_short''
             then finish_order tw (executeCloseShort tw plan result)
             else (result \<lparr> or_Success := False,
                     or_ErrorMessage := FmtS ''unknown action: %s'' (plan_Action plan) \<rparr>,
                   Some (Err (''unknown action: '' @ plan_Action plan))))"

subsection \<open>layers/execution_layer: OrderSender\<close>

text \<open>
  \<open>unix_stamp\<close> is the decimal rendering of \<^verbatim>\<open>time.Now().Unix()\<close> that \<^verbatim>\<open>dryRunOrder\<close>
  formats into the order identifier.
\<close>

definition dryRunOrder :: "string \<Rightarrow> ExecutionPlan \<Rightarrow> OrderResult \<times> error option" where
  "dryRunOrder unix_stamp plan =
     (\<lparr> or_Success = True, or_OrderID = ''DRYRUN-'' @ unix_stamp,
        or_FilledQuantity = plan_Quantity plan, or_AvgPrice = 0, or_ExecutionTimeMs = 10,
        or_ErrorMessage = Lit ''[DRY RUN] This is a simulated order'' \<rparr>, None)"

definition SendOrder ::
  "ExecutionLayerConfig \<Rightarrow> TraderWorld \<Rightarrow> string \<Rightarrow> ExecutionPlan \<Rightarrow> OrderResult \<times> error option" where
  "SendOrder cfg tw unix_stamp plan =
     (if DryRun cfg then dryRunOrder unix_stamp plan else ExecuteOrder tw (Some plan))"

definition as_string :: "go_value option \<Rightarrow> string option" where
  "as_string v = (case v of Some (GoString x) \<Rightarrow> Some x | _ \<Rightarrow> None)"

definition as_float :: "go_value option \<Rightarrow> real option" where
  "as_float v = (case v of Some (GoFloat x) \<Rightarrow> Some x | _ \<Rightarrow> None)"

definition as_int :: "go_value option \<Rightarrow> int option" where
  "as_int v = (case v of Some (GoInt x) \<Rightarrow> Some x | _ \<Rightarrow> None)"

text \<open>
  \<^verbatim>\<open>PrepareExecutionPlan\<close> reads the map through type assertions \<^verbatim>\<open>params[k].(T)\<close>; an
  assertion on a missing key or on a value of another type panics.
\<close>

definition PrepareExecutionPlan ::
  "AIDecision \<Rightarrow> RiskMetrics \<Rightarrow> params \<Rightarrow> bool \<Rightarrow> msg \<Rightarrow> ExecutionPlan outcome" where
  "PrepareExecutionPlan decision riskMetrics ps riskCheckPassed riskCheckReason =
     (case (as_string (ps ''action''), as_float (ps ''quantity''), as_float (ps ''quantity_usd''),
            as_int (ps ''leverage''), as_float (ps ''stop_loss''), as_float (ps ''take_profit''),
            as_float (ps ''max_slippage_percent''), as_int (ps ''timeout_seconds''),
            as_string (ps ''priority'')) of
        (Some action, Some quantity, Some quantityUSD, Some leverage, Some stopLoss,
         Some takeProfit, Some maxSlippage, Some timeoutSeconds, Some priority) \<Rightarrow>
          Done \<lparr> plan_Symbol = ai_Symbol decision,
                 plan_Action = action,
                 plan_Quantity = quantity,
                 plan_QuantityUSD = quantityUSD,
                 plan_Leverage = leverage,
                 plan_StopLoss = stopLoss,
                 plan_TakeProfit = takeProfit,
                 plan_MaxSlippagePercent = maxSlippage,
                 plan_TimeoutSeconds = timeoutSeconds,
                 plan_RiskCheckPassed = riskCheckPassed,
                 plan_RiskCheckReason = riskCheckReason,
                 plan_Priority = priority,
                 plan_SourceDecision = decision \<rparr>
      | _ \<Rightarrow> Panic ''interface conversion'')"

subsection \<open>layers/orchestrator.go\<close>

record TradingCycleResult =
  res_Symbol :: string
  res_Success :: bool
  res_Message :: msg
  res_Error :: msg
  res_CleanedData :: "CleanedMarketData option"
  res_AIDecision :: "AIDecision option"
  res_RiskMetrics :: "RiskMetrics option"
  res_ExecutionPlan :: "ExecutionPlan option"
  res_OrderResult :: "OrderResult option"

text \<open>
  The orchestrator's components without state of their own (data processor, parameter
  calculator, order sender and order executor) hold the parts of the configuration that
  \<^verbatim>\<open>NewOrchestrator\<close> hands them; the model reads those parts from \<open>o_config\<close>.
\<close>

record Orchestrator =
  o_config :: LayerConfig
  riskCalculator :: RiskCalculator
  decisionMaker :: DecisionMaker
  riskValidator :: RiskValidator
  totalExecutions :: int
  successfulTrades :: int
  failedTrades :: int
  rejectedByRisk :: int

definition NewOrchestrator :: "LayerConfig \<Rightarrow> Orchestrator" where
  "NewOrchestrator cfg =
     \<lparr> o_config = cfg,
       riskCalculator = NewRiskCalculator (DataLayer cfg),
       decisionMaker = NewDecisionMaker (AILayer cfg),
       riskValidator = NewRiskValidator,
       totalExecutions = 0, successfulTrades = 0, failedTrades = 0, rejectedByRisk = 0 \<rparr>"

text \<open>Everything outside the repository that one trading cycle consults.\<close>

record World =
  sprintf_summary :: "CleanedMarketData \<Rightarrow> string"
  ai_world :: AIWorld
  trader_world :: TraderWorld
  unix_stamp :: string

definition ExecuteTradingCycle ::
  "Orchestrator \<Rightarrow> World \<Rightarrow> Data option
     \<Rightarrow> Orchestrator \<times> (TradingCycleResult \<times> error option) outcome" where
  "ExecuteTradingCycle o0 w rawMarketData =
     (let o1 = o0 \<lparr> totalExecutions := totalExecutions o0 + 1 \<rparr>
      in case rawMarketData of
           None \<Rightarrow> (o1, Panic ''nil pointer dereference'')
         | Some raw \<Rightarrow>
      (let result = \<lparr> res_Symbol = raw_Symbol raw, res_Success = False, res_Message = NoMsg,
                       res_Error = NoMsg, res_CleanedData = None, res_AIDecision = None,
                       res_RiskMetrics = None, res_ExecutionPlan = None,
                       res_OrderResult = None \<rparr>
       in case ProcessMarketData (sprintf_summary w) (DataLayer (o_config o1)) rawMarketData of
            Inl err \<Rightarrow>
              (o1, Done (result \<lparr> res_Error :=
                           Wrap ''data processing failed: %v'' (Lit (error_text err)) \<rparr>, Some err))
          | Inr cleanedData \<Rightarrow>
      (let result = result \<lparr> res_CleanedData := Some cleanedData \<rparr>
       in case GetBalance_returns (trader_world w) of
            Inl err \<Rightarrow>
              (o1, Done (result \<lparr> res_Error :=
                           Wrap ''fetching account info failed: %v'' (Lit (error_text err)) \<rparr>,
                         Some err))
          | Inr balance \<Rightarrow>
      (case (as_float (balance ''total''), as_float (balance ''available''),
             as_float (balance ''used_margin'')) of
         (Some totalBalance', Some availableBalance', Some usedMargin') \<Rightarrow>
      (let o2 = o1 \<lparr> riskCalculator :=
                  rc_UpdateAccountInfo (riskCalculator o1) totalBalance' availableBalance' usedMargin' \<rparr>;
           (dm, made) = MakeDecision (decisionMaker o2) (ai_world w) cleanedData;
           o3 = o2 \<lparr> decisionMaker := dm \<rparr>
       in case made of
            Panic p \<Rightarrow> (o3, Panic p)
          | Done aiDecision \<Rightarrow>
      (let result = result \<lparr> res_AIDecision := Some aiDecision \<rparr>
       in if ai_Direction aiDecision = DirectionWait
          then (o3, Done (result \<lparr> res_Success := True,
                            res_Message := Lit ''AI decision: wait, no trade'' \<rparr>, None))
          else
      (case CalculateRiskMetrics (riskCalculator o3) (ai_Direction aiDecision) (Some cleanedData) of
         Inl err \<Rightarrow>
           (o3, Done (result \<lparr> res_Error :=
                        Wrap ''risk calculation failed: %v'' (Lit (error_text err)) \<rparr>, Some err))
       | Inr riskMetrics \<Rightarrow>
      (let result = result \<lparr> res_RiskMetrics := Some riskMetrics \<rparr>
       in if \<not> rm_CanTrade riskMetrics
          then (o3 \<lparr> rejectedByRisk := rejectedByRisk o3 + 1 \<rparr>,
                Done (result \<lparr> res_Success := True,
                        res_Message :=
                          Wrap ''risk check blocks the trade: %s'' (rm_RiskReason riskMetrics) \<rparr>,
                      None))
          else
      (case CalculateParameters (ExecutionLayer (o_config o3)) (Some aiDecision)
              (Some riskMetrics) (Some cleanedData) of
         Inl err \<Rightarrow>
           (o3, Done (result \<lparr> res_Error :=
                        Wrap ''parameter calculation failed: %v'' (Lit (error_text err)) \<rparr>,
                      Some err))
       | Inr ps \<Rightarrow>
      (case PrepareExecutionPlan aiDecision riskMetrics ps True (Lit ''preliminary check passed'') of
         Panic p \<Rightarrow> (o3, Panic p)
       | Done executionPlan \<Rightarrow>
      (let (rv, riskCheckPassed, riskCheckReason) =
             ValidateExecution (riskValidator o3) (Some executionPlan) (Some aiDecision)
               (Some riskMetrics) (Some cleanedData);
           o4 = o3 \<lparr> riskValidator := rv \<rparr>;
           executionPlan = executionPlan \<lparr> plan_RiskCheckPassed := riskCheckPassed,
                                             plan_RiskCheckReason := riskCheckReason \<rparr>;
           result = result \<lparr> res_ExecutionPlan := Some executionPlan \<rparr>
       in if \<not> riskCheckPassed
          then (o4 \<lparr> rejectedByRisk := rejectedByRisk o4 + 1 \<rparr>,
                Done (result \<lparr> res_Success := True,
                        res_Message :=
                          Wrap ''secondary risk validation failed: %s'' riskCheckReason \<rparr>,
                      None))
          else
      (case SendOrder (ExecutionLayer (o_config o4)) (trader_world w) (unix_stamp w)
              executionPlan of
         (orderResult, Some err) \<Rightarrow>
           (o4 \<lparr> failedTrades := failedTrades o4 + 1 \<rparr>,
            Done (result \<lparr> res_Error :=
                    Wrap ''sending the order failed: %v'' (Lit (error_text err)) \<rparr>, Some err))
       | (orderResult, None) \<Rightarrow>
      (let result = result \<lparr> res_OrderResult := Some orderResult \<rparr>
       in if or_Success orderResult
          then (o4 \<lparr> successfulTrades := successfulTrades o4 + 1 \<rparr>,
                Done (result \<lparr> res_Success := True, res_Message := Lit ''trade executed'' \<rparr>,
                      None))
          else (o4 \<lparr> failedTrades := failedTrades o4 + 1 \<rparr>,
                Done (result \<lparr> res_Error := or_ErrorMessage orderResult \<rparr>, None)))))))))))
       | _ \<Rightarrow> (o1, Panic ''interface conversion'')))))"

definition UpdateAccountInfo :: "Orchestrator \<Rightarrow> real \<Rightarrow> real \<Rightarrow> real \<Rightarrow> Orchestrator" where
  "UpdateAccountInfo orch totalBalance' availableBalance' usedMargin' =
     orch \<lparr> riskCalculator :=
       rc_UpdateAccountInfo (riskCalculator orch) totalBalance' availableBalance' usedMargin' \<rparr>"

definition UpdateDailyPnL :: "Orchestrator \<Rightarrow> real \<Rightarrow> Orchestrator" where
  "UpdateDailyPnL orch pnl = orch \<lparr> riskCalculator := rc_UpdateDailyPnL (riskCalculator orch) pnl \<rparr>"

definition RecordTradeResult :: "Orchestrator \<Rightarrow> bool \<Rightarrow> Orchestrator" where
  "RecordTradeResult orch isWin =
     orch \<lparr> riskCalculator := rc_RecordTradeResult (riskCalculator orch) isWin \<rparr>"

definition ResetCircuitBreaker :: "Orchestrator \<Rightarrow> Orchestrator" where
  "ResetCircuitBreaker orch =
     orch \<lparr> riskCalculator := rc_ResetCircuitBreaker (riskCalculator orch) \<rparr>"

text \<open>
  The calls a client can make on an orchestrator, and a run of them from left to right.
  A cycle that panics leaves the orchestrator in the state it had reached.
\<close>

datatype call =
    Cycle World "Data option"
  | CallUpdateAccountInfo real real real
  | CallUpdateDailyPnL real
  | CallRecordTradeResult bool
  | CallResetCircuitBreaker

fun perform :: "Orchestrator \<Rightarrow> call \<Rightarrow> Orchestrator" where
  "perform orch (Cycle w raw) = fst (ExecuteTradingCycle orch w raw)"
| "perform orch (CallUpdateAccountInfo t a u) = UpdateAccountInfo orch t a u"
| "perform orch (CallUpdateDailyPnL pnl) = UpdateDailyPnL orch pnl"
| "perform orch (CallRecordTradeResult isWin) = RecordTradeResult orch isWin"
| "perform orch (CallResetCircuitBreaker) = ResetCircuitBreaker orch"

fun run :: "Orchestrator \<Rightarrow> call list \<Rightarrow> Orchestrator" where
  "run orch [] = orch"
| "run orch (c # cs) = run (perform orch c) cs"

section \<open>The statements of the specification, and concrete inputs\<close>



text \<open>
  The data-layer configuration of the repository's tests, and a raw snapshot outside
  every bound.
\<close>

definition test_data_config :: DataLayerConfig where
  "test_data_config =
     \<lparr> MinDataQuality = 0.8, MaxAccountRiskPercent = 2, MaxSingleTradeRiskPercent = 1,
       DefaultLeverage = 3, MaxLeverage = 5, CircuitBreakerEnabled = False,
       MaxDailyLossPercent = 5, MaxConsecutiveLosses = 3 \<rparr>"


text \<open>
  The breakout test in the specification's words: price above EMA20 above EMA50, and a
  volume change above 50.
\<close>

definition spec_breakout :: "CleanedMarketData \<Rightarrow> bool" where
  "spec_breakout d =
     (cmd_CurrentPrice d > cmd_EMA20 d \<and> cmd_EMA20 d > cmd_EMA50 d \<and> cmd_VolumeChange d > 50)"







text \<open>The sum of the three outcome counters of the orchestrator.\<close>

definition counted :: "Orchestrator \<Rightarrow> int" where
  "counted orch = successfulTrades orch + failedTrades orch + rejectedByRisk orch"

text \<open>
  Concrete inputs: the configuration of \<^verbatim>\<open>getTestConfig\<close>, a risk calculator with the
  account of the tests, and cleaned records that differ from an all-zero record in a few
  fields.
\<close>

definition test_ai_config :: AILayerConfig where
  "test_ai_config =
     \<lparr> Model = ''deepseek-chat'', MinConfidence = 0.75, MaxPromptLength = 650,
       MaxDecisionsPerHour = 100, CooldownMinutes = 0 \<rparr>"

definition test_execution_config :: ExecutionLayerConfig where
  "test_execution_config =
     \<lparr> EnableSecondaryRiskCheck = True, MaxSlippagePercent = 0.5, OrderTimeoutSeconds = 30,
       EnablePositionSizing = True, PositionSizingMethod = ''fixed'', DryRun = True,
       RequireManualConfirmation = False \<rparr>"

definition test_config :: LayerConfig where
  "test_config =
     \<lparr> DataLayer = test_data_config, AILayer = test_ai_config,
       ExecutionLayer = test_execution_config \<rparr>"


definition blank_cleaned :: CleanedMarketData where
  "blank_cleaned =
     \<lparr> cmd_Symbol = ''BTCUSDT'', cmd_CurrentPrice = 0, cmd_PriceChange1h = 0,
       cmd_PriceChange4h = 0, cmd_PriceChange24h = 0, cmd_EMA20 = 0, cmd_EMA50 = 0,
       cmd_MACD = 0, cmd_MACDSignal = 0, cmd_RSI7 = 0, cmd_RSI14 = 0, cmd_ATR = 0,
       cmd_Volume24h = 0, cmd_VolumeChange = 0, cmd_OpenInterest = 0, cmd_OIChange = 0,
       cmd_FundingRate = 0, cmd_LongShortRatio = 0, cmd_TopTraderRatio = 0,
       cmd_DataQuality = 1, cmd_IsValid = True, cmd_CompressedSummary = [] \<rparr>"

definition price_above_crossed_emas :: CleanedMarketData where
  "price_above_crossed_emas =
     blank_cleaned \<lparr> cmd_CurrentPrice := 100, cmd_EMA20 := 90, cmd_EMA50 := 95,
                     cmd_VolumeChange := 60, cmd_RSI14 := 50 \<rparr>"

definition volatile_sample :: CleanedMarketData where
  "volatile_sample = blank_cleaned \<lparr> cmd_CurrentPrice := 100, cmd_ATR := 6, cmd_RSI14 := 50 \<rparr>"



definition scenario_s1 :: CleanedMarketData where
  "scenario_s1 =
     blank_cleaned \<lparr> cmd_CurrentPrice := 45000, cmd_EMA20 := 44800, cmd_EMA50 := 44200,
                     cmd_MACD := 0.023, cmd_RSI14 := 62, cmd_ATR := 250 \<rparr>"



text \<open>
  A decision maker as \<^verbatim>\<open>NewDecisionMaker\<close> builds it, an oracle that answers every call
  with well-formed JSON in favour of a long entry, and the decision that results for
  scenario S1. The clock readings are nanoseconds since 1970.
\<close>

definition fresh_decision_maker :: DecisionMaker where
  "fresh_decision_maker = NewDecisionMaker test_ai_config"

definition long_oracle :: AIWorld where
  "long_oracle =
     \<lparr> now_check = 1761868800000000000, now_update = 1761868801000000000,
       condition_reply = Decoded (''trending'', ''EMA20 above EMA50''),
       opportunity_reply = Decoded (''long_entry'', ''pullback''),
       decision_reply = Decoded (''long'', 0.85, ''trend continues'') \<rparr>"

definition long_decision :: AIDecision where
  "long_decision =
     \<lparr> ai_Symbol = ''BTCUSDT'', ai_MarketCondition = MarketTrending,
       ai_ConditionReason = OracleText ''EMA20 above EMA50'',
       ai_Opportunity = OpportunityLongEntry, ai_OpportunityReason = OracleText ''pullback'',
       ai_Direction = DirectionLong, ai_Confidence = 0.85,
       ai_ChainOfThought = OracleText ''trend continues'', ai_ModelUsed = ''deepseek-chat'' \<rparr>"

text \<open>
  What a trading cycle returned: the result and the error of a cycle that did not
  panic.
\<close>

definition cycle_result ::
  "Orchestrator \<times> (TradingCycleResult \<times> error option) outcome \<Rightarrow> TradingCycleResult option" where
  "cycle_result x = (case snd x of Done v \<Rightarrow> Some (fst v) | Panic _ \<Rightarrow> None)"

definition cycle_error ::
  "Orchestrator \<times> (TradingCycleResult \<times> error option) outcome \<Rightarrow> error option option" where
  "cycle_error x = (case snd x of Done v \<Rightarrow> Some (snd v) | Panic _ \<Rightarrow> None)"

text \<open>
  A raw snapshot of low quality (no EMA20, no RSI7, no intraday series: quality 0.6), an
  exchange on which every call succeeds, and two worlds: in one the oracle decides long,
  in the other it decides to wait.
\<close>

definition low_quality_raw :: Data where
  "low_quality_raw =
     \<lparr> raw_Symbol = ''BTCUSDT'', raw_CurrentPrice = 45000, raw_PriceChange1h = 2.5,
       raw_PriceChange4h = 5.8, raw_CurrentEMA20 = 0, raw_CurrentMACD = 0.0234,
       raw_CurrentRSI7 = 0, raw_FundingRate = 0.0001, raw_OpenInterest = None,
       raw_LongerTermContext =
         Some \<lparr> lt_EMA20 = 44800, lt_EMA50 = 44200, lt_ATR3 = 200, lt_ATR14 = 250,
                lt_CurrentVolume = 5000000, lt_AverageVolume = 4500000 \<rparr>,
       raw_IntradaySeries = None \<rparr>"

definition test_balance :: params where
  "test_balance =
     Map.empty(''total'' \<mapsto> GoFloat 10000, ''available'' \<mapsto> GoFloat 8000,
               ''used_margin'' \<mapsto> GoFloat 2000)"

definition calm_exchange :: TraderWorld where
  "calm_exchange =
     \<lparr> GetBalance_returns = Inr test_balance, SetLeverage_returns = None,
       OpenLong_returns = Inr ''1001'', OpenShort_returns = Inr ''1002'',
       CloseLong_returns = Inr ''1003'', CloseShort_returns = Inr ''1004'',
       SetStopLoss_returns = None, SetTakeProfit_returns = None, elapsed_ms = 12 \<rparr>"

definition world_long :: World where
  "world_long =
     \<lparr> sprintf_summary = cmd_Symbol, ai_world = long_oracle, trader_world = calm_exchange,
       unix_stamp = ''1761868800'' \<rparr>"




definition rejected_cycle ::
  "Orchestrator \<times> (TradingCycleResult \<times> error option) outcome" where
  "rejected_cycle =
     ExecuteTradingCycle (NewOrchestrator test_config) world_long (Some low_quality_raw)"

text \<open>The artifacts of the stages on the low-quality snapshot, written out.\<close>

definition low_quality_cleaned :: CleanedMarketData where
  "low_quality_cleaned =
     \<lparr> cmd_Symbol = ''BTCUSDT'', cmd_CurrentPrice = 45000, cmd_PriceChange1h = 2.5,
       cmd_PriceChange4h = 5.8, cmd_PriceChange24h = 0, cmd_EMA20 = 0, cmd_EMA50 = 44200,
       cmd_MACD = 0.0234, cmd_MACDSignal = 0.02106, cmd_RSI7 = 0, cmd_RSI14 = 0,
       cmd_ATR = 250, cmd_Volume24h = 5000000, cmd_VolumeChange = 100 / 9,
       cmd_OpenInterest = 0, cmd_OIChange = 0, cmd_FundingRate = 0.0001,
       cmd_LongShortRatio = 0, cmd_TopTraderRatio = 0, cmd_DataQuality = 0.6,
       cmd_IsValid = False, cmd_CompressedSummary = ''BTCUSDT'' \<rparr>"

definition wait_decision :: AIDecision where
  "wait_decision =
     \<lparr> ai_Symbol = ''BTCUSDT'', ai_MarketCondition = MarketTrending,
       ai_ConditionReason = OracleText ''EMA20 above EMA50'',
       ai_Opportunity = OpportunityLongEntry, ai_OpportunityReason = OracleText ''pullback'',
       ai_Direction = DirectionWait, ai_Confidence = 0.8,
       ai_ChainOfThought = OracleText ''no edge'', ai_ModelUsed = ''deepseek-chat'' \<rparr>"

definition low_quality_metrics :: RiskMetrics where
  "low_quality_metrics =
     \<lparr> rm_Symbol = ''BTCUSDT'', rm_MaxPositionSizeUSD = 200, rm_RecommendedLeverage = 2,
       rm_StopLossPrice = 44500, rm_TakeProfitPrice = 46000, rm_MaxLossUSD = 20 / 9,
       rm_RequiredMargin = 100, rm_MarginUsagePercent = 21, rm_RiskLevel = ''low'',
       rm_CanTrade = True, rm_RiskReason = Lit ''risk check passed'' \<rparr>"

definition low_quality_params :: params where
  "low_quality_params =
     Map.empty
       (''action'' \<mapsto> GoString ''open_long'',
        ''quantity'' \<mapsto> GoFloat (1 / 450),
        ''quantity_usd'' \<mapsto> GoFloat 100,
        ''leverage'' \<mapsto> GoInt 2,
        ''stop_loss'' \<mapsto> GoFloat 44500,
        ''take_profit'' \<mapsto> GoFloat 46000,
        ''max_slippage_percent'' \<mapsto> GoFloat 0.5,
        ''timeout_seconds'' \<mapsto> GoInt 30,
        ''priority'' \<mapsto> GoString ''normal'')"

definition low_quality_plan :: ExecutionPlan where
  "low_quality_plan =
     \<lparr> plan_Symbol = ''BTCUSDT'', plan_Action = ''open_long'', plan_Quantity = 1 / 450,
       plan_QuantityUSD = 100, plan_Leverage = 2, plan_StopLoss = 44500,
       plan_TakeProfit = 46000, plan_MaxSlippagePercent = 0.5, plan_TimeoutSeconds = 30,
       plan_RiskCheckPassed = True, plan_RiskCheckReason = Lit ''preliminary check passed'',
       plan_Priority = ''normal'', plan_SourceDecision = long_decision \<rparr>"


definition rejected_result :: TradingCycleResult where
  "rejected_result =
     \<lparr> res_Symbol = ''BTCUSDT'', res_Success = True,
       res_Message = Wrap ''secondary risk validation failed: %s''
                       (Lit ''market data quality not acceptable''),
       res_Error = NoMsg,
       res_CleanedData = Some low_quality_cleaned, res_AIDecision = Some long_decision,
       res_RiskMetrics = Some low_quality_metrics,
       res_ExecutionPlan =
         Some (low_quality_plan \<lparr> plan_RiskCheckPassed := False,
                 plan_RiskCheckReason := Lit ''market data quality not acceptable'' \<rparr>),
       res_OrderResult = None \<rparr>"

section \<open>Verified properties\<close>

subsection \<open>DataProcessor\<close>

text \<open>
  Claim C8. Every compressed summary that \<^verbatim>\<open>ProcessMarketData\<close> emits is at most 650
  bytes long; when the formatted line is longer than 650 bytes, the summary is the first
  647 bytes of the line followed by three dots, and otherwise it is the line. The call
  returns a record for every raw input that is not nil and every formatter.
\<close>

theorem summary_at_most_650:
  "\<exists>c. ProcessMarketData sprintf cfg (Some d) = Inr c
       \<and> length (cmd_CompressedSummary c) \<le> 650
       \<and> cmd_CompressedSummary c =
           (let line = sprintf (c \<lparr> cmd_CompressedSummary := [] \<rparr>)
            in if length line > 650 then take 647 line @ ''...'' else line)"
  by (simp add: ProcessMarketData_def generateCompressedSummary_def Let_def)

theorem summary_at_most_650_witness:
  "map_sum id cmd_CompressedSummary
     (ProcessMarketData cmd_Symbol test_data_config
        (Some (low_quality_raw \<lparr> raw_Symbol := replicate 700 (CHR ''B'') \<rparr>)))
   = Inr (replicate 647 (CHR ''B'') @ ''...'')
   \<and> length (replicate 647 (CHR ''B'') @ ''...'') = 650"
  using summary_at_most_650
          [of cmd_Symbol test_data_config "low_quality_raw \<lparr> raw_Symbol := replicate 700 (CHR ''B'') \<rparr>"]
  by (auto simp: ProcessMarketData_def generateCompressedSummary_def Let_def)




subsection \<open>MarketAnalyzer\<close>

text \<open>
  Claim C3, as stated, fails: with the price at 100 above both averages, EMA20 at 90
  below EMA50 at 95, no MACD confirmation and a volume change of 60, the trend test falls
  through and the classifier returns breakout, although EMA20 is not above EMA50.
\<close>

theorem breakout_counterexample:
  "trending_rule price_above_crossed_emas = None
   \<and> fst (AnalyzeMarketConditionWithTechnicals price_above_crossed_emas) = MarketBreakout
   \<and> \<not> spec_breakout price_above_crossed_emas"
  by (simp add: trending_rule_def AnalyzeMarketConditionWithTechnicals_def spec_breakout_def
        price_above_crossed_emas_def blank_cleaned_def Let_def)

lemma volatile_rule_eq:
  "volatile_rule d =
     (if cmd_ATR d > 0 \<and> cmd_CurrentPrice d > 0 \<and> cmd_ATR d / cmd_CurrentPrice d * 100 > 5
      then Some (MarketVolatile, Fmt ''ATR volatility %.2f%%, market highly volatile''
                   [cmd_ATR d / cmd_CurrentPrice d * 100])
      else None)"
  by (simp add: volatile_rule_def Let_def)

text \<open>
  Claim C3, amended. When the trend test falls through, the fallback classifier returns
  breakout exactly when the price is above EMA20 and above EMA50 and the volume change is
  above 50 (EMA20 need not be above EMA50); otherwise it returns volatile when ATR and
  price are positive and ATR/price is above 5 percent, else consolidate when RSI14 is
  strictly between 40 and 60 and MACD strictly between -0.0001 and 0.0001, else ranging.
\<close>

theorem fallback_after_trending:
  "trending_rule d = None \<Longrightarrow>
     (fst (AnalyzeMarketConditionWithTechnicals d) = MarketBreakout)
       = (cmd_CurrentPrice d > cmd_EMA20 d \<and> cmd_CurrentPrice d > cmd_EMA50 d
          \<and> cmd_VolumeChange d > 50)
     \<and> (\<not> (cmd_CurrentPrice d > cmd_EMA20 d \<and> cmd_CurrentPrice d > cmd_EMA50 d
             \<and> cmd_VolumeChange d > 50)
        \<longrightarrow> fst (AnalyzeMarketConditionWithTechnicals d) =
              (if cmd_ATR d > 0 \<and> cmd_CurrentPrice d > 0
                  \<and> cmd_ATR d / cmd_CurrentPrice d * 100 > 5 then MarketVolatile
               else if cmd_RSI14 d > 40 \<and> cmd_RSI14 d < 60
                       \<and> cmd_MACD d > - 0.0001 \<and> cmd_MACD d < 0.0001 then MarketConsolidate
               else MarketRanging))"
  by (auto simp: AnalyzeMarketConditionWithTechnicals_def volatile_rule_eq Let_def)

theorem fallback_after_trending_witness:
  "trending_rule volatile_sample = None
   \<and> cmd_VolumeChange volatile_sample \<le> 50
   \<and> fst (AnalyzeMarketConditionWithTechnicals volatile_sample) \<noteq> MarketBreakout
   \<and> fst (AnalyzeMarketConditionWithTechnicals volatile_sample) = MarketVolatile"
proof -
  have fall: "trending_rule volatile_sample = None"
    by (simp add: trending_rule_def volatile_sample_def blank_cleaned_def)
  show ?thesis
    using fall fallback_after_trending [OF fall]
    by (simp add: volatile_sample_def blank_cleaned_def)
qed

text \<open>
  Claim C10. The helper \<^verbatim>\<open>contains\<close> is true exactly when both arguments are not empty,
  whatever they hold. So for every text that is not empty, \<^verbatim>\<open>parseMarketConditionFromText\<close>
  returns trending, as does \<^verbatim>\<open>AnalyzeMarketCondition\<close> on a reply that does not decode;
  and \<^verbatim>\<open>parseDecisionFromText\<close> returns long with confidence 0.75, as does
  \<^verbatim>\<open>callAIForDecision\<close> on a reply that does not decode (where the prompt limit is at
  least 3, so that the call is reached).
\<close>

theorem contains_ignores_content:
  "contains text substr = (text \<noteq> [] \<and> substr \<noteq> [])
   \<and> (text \<noteq> [] \<longrightarrow>
        parseMarketConditionFromText text
          = (MarketTrending, Lit ''parsed from text: trending market'')
        \<and> AnalyzeMarketCondition (Some d) (Malformed text)
          = Inr (MarketTrending, Lit ''parsed from text: trending market'')
        \<and> parseDecisionFromText text = (DirectionLong, 0.75, Lit ''decision parsed from text'')
        \<and> (MaxPromptLength cfg \<ge> 3 \<longrightarrow>
             callAIForDecision cfg (Malformed text)
               = Done (Inr (DirectionLong, 0.75, Lit ''decision parsed from text''))))"
  by (simp add: contains_def parseMarketConditionFromText_def AnalyzeMarketCondition_def
        parseDecisionFromText_def callAIForDecision_def Let_def)

theorem contains_ignores_content_witness:
  "contains ''market is ranging, wait'' ''trending''
   \<and> ''market is ranging, wait'' \<noteq> []
   \<and> MaxPromptLength test_ai_config \<ge> 3
   \<and> AnalyzeMarketCondition (Some blank_cleaned) (Malformed ''market is ranging, wait'')
       = Inr (MarketTrending, Lit ''parsed from text: trending market'')
   \<and> callAIForDecision test_ai_config (Malformed ''market is ranging, wait'')
       = Done (Inr (DirectionLong, 0.75, Lit ''decision parsed from text''))"
  using contains_ignores_content
          [of "''market is ranging, wait''" "''trending''" blank_cleaned test_ai_config]
  by (simp add: test_ai_config_def)

subsection \<open>RiskCalculator\<close>








subsection \<open>DecisionMaker\<close>

lemma calculateConfidence_ge: "calculateConfidence d isLong \<ge> 0.75"
  by (simp add: calculateConfidence_def Let_def)

lemma makeRuleBasedDecision_conf:
  "makeRuleBasedDecision c opp d = (dir, conf) \<Longrightarrow> dir \<noteq> DirectionWait \<Longrightarrow> conf \<ge> 0.7"
  using calculateConfidence_ge [of d True] calculateConfidence_ge [of d False]
  by (auto simp: makeRuleBasedDecision_def split: TradingOpportunity.splits if_splits)

lemma callAIForDecision_conf:
  "callAIForDecision cfg reply = Done (Inr (dir, conf, chain)) \<Longrightarrow> conf \<ge> 0.7"
  by (auto simp: callAIForDecision_def parseDecisionFromText_def Let_def
      split: if_splits oracle_reply.splits)

text \<open>
  Claim C5. Every decision that \<^verbatim>\<open>MakeDecision\<close> returns with a direction other than wait
  has a confidence of at least 0.7 and of at least the configured \<^verbatim>\<open>MinConfidence\<close>,
  for every configuration, rate-limit state, clock and market record, and whatever the
  three oracle calls do (fail, return text that does not decode, or return decoded
  fields).
\<close>

theorem decision_confidence_floor:
  assumes "MakeDecision dm w md = (dm', Done dec)" and "ai_Direction dec \<noteq> DirectionWait"
  shows "ai_Confidence dec \<ge> 0.7 \<and> ai_Confidence dec \<ge> MinConfidence (dm_config dm)"
proof -
  obtain dm1 allowed where cr: "checkRateLimit dm (now_check w) = (dm1, allowed)"
    by (cases "checkRateLimit dm (now_check w)")
  have cfg: "dm_config dm1 = dm_config dm"
    using cr by (auto simp: checkRateLimit_def Let_def split: if_splits)
  show ?thesis
  proof (cases allowed)
    case False
    with assms cr show ?thesis by (auto simp: MakeDecision_def)
  next
    case True
    obtain mc creason where a:
      "(case AnalyzeMarketCondition (Some md) (condition_reply w) of
          Inl _ \<Rightarrow> AnalyzeMarketConditionWithTechnicals md
        | Inr r \<Rightarrow> r) = (mc, creason)"
      by (metis surj_pair)
    obtain opp oreason where b:
      "(case DetectOpportunity mc (Some md) (opportunity_reply w) of
          Inl _ \<Rightarrow> DetectOpportunityWithTechnicals mc md
        | Inr r \<Rightarrow> r) = (opp, oreason)"
      by (metis surj_pair)
    from assms(1) cr True a b obtain r where
      r: "callAIForDecision (dm_config dm1) (decision_reply w) = Done r"
      by (auto simp: MakeDecision_def Let_def split: outcome.splits)
    obtain dir conf chain where t:
      "(case r of
          Inl _ \<Rightarrow> (let (dir, conf) = makeRuleBasedDecision mc opp md
                    in (dir, conf, Lit ''AI call failed, rule engine decides''))
        | Inr x \<Rightarrow> x) = (dir, conf, chain)"
      by (metis prod_cases3)
    have floor: "dir \<noteq> DirectionWait \<Longrightarrow> conf \<ge> 0.7"
    proof (cases r)
      case (Inl e)
      with t show "dir \<noteq> DirectionWait \<Longrightarrow> conf \<ge> 0.7"
        using makeRuleBasedDecision_conf [of mc opp md dir conf]
        by (auto split: prod.splits)
    next
      case (Inr x)
      with t r show "dir \<noteq> DirectionWait \<Longrightarrow> conf \<ge> 0.7"
        using callAIForDecision_conf [of "dm_config dm1" "decision_reply w" dir conf chain]
        by auto
    qed
    from assms(1) cr True a b r t
    have d: "ai_Confidence dec = conf"
      "ai_Direction dec = (if conf < MinConfidence (dm_config dm1) then DirectionWait else dir)"
      by (auto simp: MakeDecision_def Let_def split: if_splits)
    with assms(2) floor cfg show ?thesis
      by (auto split: if_splits)
  qed
qed

theorem decision_confidence_floor_witness:
  "MakeDecision fresh_decision_maker long_oracle scenario_s1
     = (updateRateLimit fresh_decision_maker (now_update long_oracle), Done long_decision)
   \<and> ai_Direction long_decision \<noteq> DirectionWait
   \<and> ai_Confidence long_decision \<ge> 0.7
   \<and> ai_Confidence long_decision \<ge> MinConfidence (dm_config fresh_decision_maker)"
proof -
  have run: "MakeDecision fresh_decision_maker long_oracle scenario_s1
     = (updateRateLimit fresh_decision_maker (now_update long_oracle), Done long_decision)"
    by (simp add: MakeDecision_def checkRateLimit_def Sub_def maxDuration_def minDuration_def
          Hour_def Minute_def zeroTime_def fresh_decision_maker_def NewDecisionMaker_def
          test_ai_config_def long_oracle_def AnalyzeMarketCondition_def
          isValidMarketCondition_def DetectOpportunity_def isValidOpportunity_def
          callAIForDecision_def long_decision_def scenario_s1_def blank_cleaned_def
          updateRateLimit_def Let_def)
  have dir: "ai_Direction long_decision \<noteq> DirectionWait"
    by (simp add: long_decision_def)
  show ?thesis
    using decision_confidence_floor [OF run dir] run dir by simp
qed

subsection \<open>ParameterCalculator\<close>







subsection \<open>Orchestrator\<close>

lemma cycle_counters:
  "totalExecutions (fst (ExecuteTradingCycle orch w raw)) = totalExecutions orch + 1
   \<and> counted (fst (ExecuteTradingCycle orch w raw)) \<le> counted orch + 1"
  by (auto simp: ExecuteTradingCycle_def counted_def Let_def
      split: option.splits sum.splits prod.splits outcome.splits if_splits)

lemma perform_counters:
  "counted orch \<le> totalExecutions orch \<Longrightarrow>
     counted (perform orch c) \<le> totalExecutions (perform orch c)"
proof (cases c)
  case (Cycle w raw)
  assume "counted orch \<le> totalExecutions orch"
  then show ?thesis
    using cycle_counters [of orch w raw] Cycle by simp
qed (simp_all add: counted_def UpdateAccountInfo_def UpdateDailyPnL_def RecordTradeResult_def
       ResetCircuitBreaker_def)

lemma run_counters:
  "counted orch \<le> totalExecutions orch \<Longrightarrow>
     counted (run orch cs) \<le> totalExecutions (run orch cs)"
  by (induction cs arbitrary: orch) (simp_all add: perform_counters)

text \<open>
  Claim C6. From a freshly constructed orchestrator, after any sequence of trading
  cycles (with any raw input and any behaviour of the oracle and the exchange, so with
  any outcome at every stage, a panic included) and calls of \<^verbatim>\<open>UpdateAccountInfo\<close>,
  \<^verbatim>\<open>UpdateDailyPnL\<close>, \<^verbatim>\<open>RecordTradeResult\<close> and \<^verbatim>\<open>ResetCircuitBreaker\<close>, the successful, failed
  and rejected counters together are at most the number of executions.
\<close>

theorem counters_bounded:
  "successfulTrades (run (NewOrchestrator cfg) cs) + failedTrades (run (NewOrchestrator cfg) cs)
     + rejectedByRisk (run (NewOrchestrator cfg) cs)
   \<le> totalExecutions (run (NewOrchestrator cfg) cs)"
proof -
  have "counted (NewOrchestrator cfg) \<le> totalExecutions (NewOrchestrator cfg)"
    by (simp add: counted_def NewOrchestrator_def)
  from run_counters [OF this, of cs] show ?thesis
    by (simp add: counted_def)
qed

text \<open>
  The stages of a cycle on the low-quality snapshot, one evaluation each, and the two
  cycles assembled from them.
\<close>

lemma stage_clean:
  "ProcessMarketData cmd_Symbol test_data_config (Some low_quality_raw) = Inr low_quality_cleaned"
  by (simp add: ProcessMarketData_def assessDataQuality_def intraday_stale_def
        calculatePriceChange24h_def calculateVolumeChange_def calculateOIChange_def
        calculateMACDSignal_def calculateRSI14_def generateCompressedSummary_def
        low_quality_raw_def low_quality_cleaned_def test_data_config_def Let_def)

lemmas decision_eval =
  MakeDecision_def checkRateLimit_def Sub_def maxDuration_def minDuration_def
  Hour_def Minute_def zeroTime_def NewDecisionMaker_def test_ai_config_def long_oracle_def
  AnalyzeMarketCondition_def isValidMarketCondition_def DetectOpportunity_def
  isValidOpportunity_def callAIForDecision_def updateRateLimit_def Let_def

lemma stage_decide_long:
  "MakeDecision (NewDecisionMaker test_ai_config) long_oracle low_quality_cleaned
     = (updateRateLimit (NewDecisionMaker test_ai_config) (now_update long_oracle),
        Done long_decision)"
  by (simp add: decision_eval long_decision_def low_quality_cleaned_def)


lemma stage_metrics:
  "CalculateRiskMetrics (rc_UpdateAccountInfo (NewRiskCalculator test_data_config) 10000 8000 2000)
       DirectionLong (Some low_quality_cleaned)
     = Inr low_quality_metrics"
  by (simp add: CalculateRiskMetrics_def zero_RiskMetrics_def calculateRecommendedLeverage_def
        calculateLongStopLoss_def calculateLongTakeProfit_def assessRiskLevel_def canTrade_def
        rc_UpdateAccountInfo_def NewRiskCalculator_def test_data_config_def
        low_quality_cleaned_def low_quality_metrics_def Let_def)

lemma stage_params:
  "CalculateParameters test_execution_config (Some long_decision) (Some low_quality_metrics)
       (Some low_quality_cleaned)
     = Inr low_quality_params"
  by (simp add: CalculateParameters_def calculatePositionSize_def calculateLeverage_def
        calculateStopLoss_def calculateTakeProfit_def determineAction_def determinePriority_def
        test_execution_config_def long_decision_def low_quality_metrics_def
        low_quality_cleaned_def low_quality_params_def Let_def)

lemma stage_plan:
  "PrepareExecutionPlan long_decision low_quality_metrics low_quality_params True
       (Lit ''preliminary check passed'')
     = Done low_quality_plan"
  by (simp add: PrepareExecutionPlan_def as_string_def as_float_def as_int_def
        low_quality_params_def low_quality_plan_def)
     (simp add: long_decision_def)

lemma stage_validate:
  "ValidateExecution NewRiskValidator (Some low_quality_plan) (Some long_decision)
       (Some low_quality_metrics) (Some low_quality_cleaned)
     = (\<lparr> totalValidations = 1, passedValidations = 0, failedValidations = 1 \<rparr>, False,
        Lit ''market data quality not acceptable'')"
  by (simp add: ValidateExecution_def validateBasicParameters_def validateRiskMetrics_def
        validateMarketData_def rv_fail_def NewRiskValidator_def low_quality_plan_def
        low_quality_metrics_def low_quality_cleaned_def Let_def)

lemma balance_eval:
  "as_float (test_balance ''total'') = Some 10000"
  "as_float (test_balance ''available'') = Some 8000"
  "as_float (test_balance ''used_margin'') = Some 2000"
  by (simp_all add: as_float_def test_balance_def)

lemma low_quality_raw_symbol: "raw_Symbol low_quality_raw = ''BTCUSDT''"
  by (simp add: low_quality_raw_def)

lemma long_decision_direction: "ai_Direction long_decision = DirectionLong"
  by (simp add: long_decision_def)

lemma wait_decision_direction: "ai_Direction wait_decision = DirectionWait"
  by (simp add: wait_decision_def)

lemma low_quality_metrics_can_trade: "rm_CanTrade low_quality_metrics"
  by (simp add: low_quality_metrics_def)

lemmas cycle_eval =
  ExecuteTradingCycle_def NewOrchestrator_def test_config_def calm_exchange_def
  stage_clean stage_metrics stage_params stage_plan stage_validate balance_eval
  long_decision_direction wait_decision_direction low_quality_metrics_can_trade
  low_quality_raw_symbol Let_def


lemma rejected_cycle_eval:
  "snd rejected_cycle = Done (rejected_result, None)
   \<and> rejectedByRisk (fst rejected_cycle) = 1
   \<and> successfulTrades (fst rejected_cycle) = 0 \<and> failedTrades (fst rejected_cycle) = 0"
  by (simp add: rejected_cycle_def world_long_def cycle_eval stage_decide_long
        rejected_result_def)





theorem counters_bounded_witness:
  "totalExecutions (run (NewOrchestrator test_config) [Cycle world_long (Some low_quality_raw)]) = 1
   \<and> rejectedByRisk (run (NewOrchestrator test_config) [Cycle world_long (Some low_quality_raw)]) = 1
   \<and> successfulTrades (run (NewOrchestrator test_config) [Cycle world_long (Some low_quality_raw)])
       + failedTrades (run (NewOrchestrator test_config) [Cycle world_long (Some low_quality_raw)])
       + rejectedByRisk (run (NewOrchestrator test_config) [Cycle world_long (Some low_quality_raw)])
     \<le> totalExecutions (run (NewOrchestrator test_config) [Cycle world_long (Some low_quality_raw)])"
  using counters_bounded [of test_config "[Cycle world_long (Some low_quality_raw)]"]
    rejected_cycle_eval
    cycle_counters [of "NewOrchestrator test_config" world_long "Some low_quality_raw"]
  by (simp add: rejected_cycle_def NewOrchestrator_def)

end
